theory Spec2Isabelle
  imports
    Complex_Main
    "HOL-Library.Char_ord"
    "HOL-Library.List_Lexorder"
    "HOL-Library.Product_Lexorder"
begin

section \<open>Resume scoring: the scorer module and the scoring endpoint\<close>

text \<open>
  A shallow embedding of \<^verbatim>\<open>scorer.py\<close> and of \<^verbatim>\<open>post_score\<close> in \<^verbatim>\<open>main.py\<close>.
  Python strings are \<open>string\<close> (ASCII text), Python integers are \<open>int\<close>, Python floats
  are idealised as \<open>real\<close> (rounding is not modelled). The libraries the module calls
  (NLTK, fuzzywuzzy, joblib, scikit-learn) are fields of an environment record; nothing
  is assumed about them. Exceptions are values of a sum type. Log lines are not modelled.
\<close>

subsection \<open>Python strings, slices and dictionaries\<close>

text \<open>The characters that \<^verbatim>\<open>str.strip()\<close> and \<^verbatim>\<open>str.split()\<close> treat as whitespace (ASCII).\<close>

definition is_space :: "char \<Rightarrow> bool" where
  "is_space c = (c \<in> set [CHR 0x20, CHR 0x09, CHR 0x0A, CHR 0x0B, CHR 0x0C, CHR 0x0D,
                            CHR 0x1C, CHR 0x1D, CHR 0x1E, CHR 0x1F])"

text \<open>\<^verbatim>\<open>s.strip()\<close>\<close>

definition strip :: "string \<Rightarrow> string" where
  "strip s = rev (dropWhile is_space (rev (dropWhile is_space s)))"

text \<open>\<^verbatim>\<open>s.split()\<close>: the maximal runs of non-whitespace characters; \<open>cur\<close> is the
  run being read, reversed.\<close>

fun split_run :: "string \<Rightarrow> string \<Rightarrow> string list" where
  "split_run cur [] = (if cur = [] then [] else [rev cur])"
| "split_run cur (c # cs) =
     (if is_space c
      then (if cur = [] then split_run [] cs else rev cur # split_run [] cs)
      else split_run (c # cur) cs)"

definition split :: "string \<Rightarrow> string list" where
  "split s = split_run [] s"

text \<open>\<^verbatim>\<open>' '.join(ws)\<close>\<close>

fun join :: "string list \<Rightarrow> string" where
  "join [] = []"
| "join [w] = w"
| "join (w # v # ws) = w @ CHR 0x20 # join (v # ws)"

text \<open>\<^verbatim>\<open>s.lower()\<close> and \<^verbatim>\<open>s.upper()\<close> on ASCII letters.\<close>

definition lower_char :: "char \<Rightarrow> char" where
  "lower_char c = (if CHR ''A'' \<le> c \<and> c \<le> CHR ''Z'' then char_of (of_char c + (32::nat)) else c)"

definition upper_char :: "char \<Rightarrow> char" where
  "upper_char c = (if CHR ''a'' \<le> c \<and> c \<le> CHR ''z'' then char_of (of_char c - (32::nat)) else c)"

definition lower :: "string \<Rightarrow> string" where
  "lower s = map lower_char s"

text \<open>\<^verbatim>\<open>s.replace(' ', '_')\<close>\<close>

definition replace_space :: "string \<Rightarrow> string" where
  "replace_space s = map (\<lambda>c. if c = CHR 0x20 then CHR ''_'' else c) s"

text \<open>\<^verbatim>\<open>range(k)\<close> for an integer \<open>k\<close>: empty when \<open>k \<le> 0\<close>.\<close>

definition py_range :: "int \<Rightarrow> nat list" where
  "py_range k = [0..<nat k]"

text \<open>\<^verbatim>\<open>xs[i:j]\<close> for indices \<open>0 \<le> i \<le> j\<close>, and \<^verbatim>\<open>xs[:k]\<close> for any integer \<open>k\<close>
  (a negative \<open>k\<close> counts from the end).\<close>

definition slice :: "'a list \<Rightarrow> nat \<Rightarrow> nat \<Rightarrow> 'a list" where
  "slice xs i j = take (j - i) (drop i xs)"

definition slice_to :: "'a list \<Rightarrow> int \<Rightarrow> 'a list" where
  "slice_to xs k = (if 0 \<le> k then take (nat k) xs else take (nat (int (length xs) + k)) xs)"

text \<open>\<^verbatim>\<open>d.get(k, default)\<close> on a dictionary used for lookup only.\<close>

definition dict_get :: "('k \<rightharpoonup> 'v) \<Rightarrow> 'k \<Rightarrow> 'v \<Rightarrow> 'v" where
  "dict_get d k dflt = (case d k of None \<Rightarrow> dflt | Some v \<Rightarrow> v)"

text \<open>A dictionary that is iterated is an association list in insertion order.
  \<open>dict_store\<close> is \<^verbatim>\<open>d[k] = v\<close>: an existing key keeps its place and takes the new value,
  a new key goes to the end. \<open>dict_of\<close> builds a dictionary from (key, value) pairs as a
  dict comprehension does.\<close>

fun dict_store :: "'k \<Rightarrow> 'v \<Rightarrow> ('k \<times> 'v) list \<Rightarrow> ('k \<times> 'v) list" where
  "dict_store k v [] = [(k, v)]"
| "dict_store k v (p # ps) = (if fst p = k then (k, v) # ps else p # dict_store k v ps)"

definition dict_of :: "('k \<times> 'v) list \<Rightarrow> ('k \<times> 'v) list" where
  "dict_of ps = fold (\<lambda>p d. dict_store (fst p) (snd p) d) ps []"

text \<open>Iterating over a Python \<open>set\<close> of strings visits every element once, in an order
  fixed by the strings' hashes. The order is a parameter: \<open>h\<close> ranks the elements, and
  every order of the elements is \<open>set_iter h\<close> for some \<open>h\<close>.\<close>

definition set_iter :: "(string \<Rightarrow> nat) \<Rightarrow> string list \<Rightarrow> string list" where
  "set_iter h xs = sort_key h (remdups xs)"

subsection \<open>The environment: libraries and files\<close>

datatype wordnet_pos = ADJ | NOUN | VERB | ADV

text \<open>
  \<^item> \<open>word_tokenize\<close>: \<^verbatim>\<open>nltk.word_tokenize\<close>;
  \<^item> \<open>pos_tag\<close>: \<^verbatim>\<open>nltk.pos_tag([word])[0][1][0]\<close>, the first character of the tag of a
    single word;
  \<^item> \<open>wn_lemmatize\<close>: \<^verbatim>\<open>WordNetLemmatizer().lemmatize\<close>;
  \<^item> \<open>fuzz_ratio\<close>: \<^verbatim>\<open>fuzz.ratio\<close>, an integer similarity;
  \<^item> \<open>model_dir\<close>: the objects \<^verbatim>\<open>joblib.load\<close> finds in the model directory, by file name;
  \<^item> \<open>positive_probability\<close>: \<^verbatim>\<open>model.predict_proba(vectorizer.transform([text]))[0][1]\<close>;
  \<^item> \<open>alternate_skills_json\<close>: the content of \<^verbatim>\<open>alternate_skills.json\<close>, \<open>None\<close> when the
    file is missing or is not JSON;
  \<^item> \<open>hash_order\<close>: the iteration order of sets.
\<close>

record 'obj env =
  word_tokenize :: "string \<Rightarrow> string list"
  pos_tag :: "string \<Rightarrow> char"
  wn_lemmatize :: "string \<Rightarrow> wordnet_pos \<Rightarrow> string"
  fuzz_ratio :: "string \<Rightarrow> string \<Rightarrow> int"
  model_dir :: "string \<rightharpoonup> 'obj"
  positive_probability :: "'obj \<Rightarrow> 'obj \<Rightarrow> string \<Rightarrow> real"
  alternate_skills_json :: "(string \<rightharpoonup> string list) option"
  hash_order :: "string \<Rightarrow> nat"

subsection \<open>Text normalizer\<close>

text \<open>\<^verbatim>\<open>get_wordnet_pos\<close>: the first character of the tag, in upper case, looked up in
  \<^verbatim>\<open>tag_dict\<close> with default \<open>NOUN\<close>.\<close>

definition tag_dict :: "char \<rightharpoonup> wordnet_pos" where
  "tag_dict = [CHR ''J'' \<mapsto> ADJ, CHR ''N'' \<mapsto> NOUN, CHR ''V'' \<mapsto> VERB, CHR ''R'' \<mapsto> ADV]"

definition get_wordnet_pos :: "'obj env \<Rightarrow> string \<Rightarrow> wordnet_pos" where
  "get_wordnet_pos E word =
     (let tag = upper_char (pos_tag E word) in dict_get tag_dict tag NOUN)"

definition lemmatize_text_for_matching :: "'obj env \<Rightarrow> string \<Rightarrow> string" where
  "lemmatize_text_for_matching E text =
     (let tokens = word_tokenize E (lower text);
          lemmatized = map (\<lambda>token. wn_lemmatize E token (get_wordnet_pos E token)) tokens
      in join lemmatized)"

subsection \<open>Fuzzy phrase matcher\<close>

text \<open>The window loop of \<^verbatim>\<open>phrase_in_lemmatized_text\<close>: \<open>is\<close> are the indices still to
  visit; the result is (returned early, \<open>max_score\<close>).\<close>

fun window_loop ::
  "'obj env \<Rightarrow> string list \<Rightarrow> nat \<Rightarrow> string \<Rightarrow> int \<Rightarrow> int \<Rightarrow> nat list \<Rightarrow> bool \<times> int" where
  "window_loop E text_words n phrase_lemmatized threshold max_score [] = (False, max_score)"
| "window_loop E text_words n phrase_lemmatized threshold max_score (i # is) =
     (let candidate = join (slice text_words i (i + n));
          score = fuzz_ratio E candidate phrase_lemmatized;
          max_score' = max max_score score
      in if score \<ge> threshold then (True, max_score')
         else window_loop E text_words n phrase_lemmatized threshold max_score' is)"

text \<open>The two nested loops of the word-level fallback, each returning early.\<close>

fun text_word_loop :: "'obj env \<Rightarrow> string \<Rightarrow> string list \<Rightarrow> bool" where
  "text_word_loop E word [] = False"
| "text_word_loop E word (text_word # rest) =
     (if fuzz_ratio E word text_word \<ge> 80 then True else text_word_loop E word rest)"

fun phrase_word_loop :: "'obj env \<Rightarrow> string list \<Rightarrow> string list \<Rightarrow> bool" where
  "phrase_word_loop E [] text_words = False"
| "phrase_word_loop E (word # rest) text_words =
     (if text_word_loop E word text_words then True else phrase_word_loop E rest text_words)"

definition phrase_in_lemmatized_text :: "'obj env \<Rightarrow> string \<Rightarrow> string \<Rightarrow> int \<Rightarrow> bool" where
  "phrase_in_lemmatized_text E phrase lemmatized_text threshold =
     (let phrase_lemmatized = lemmatize_text_for_matching E phrase;
          phrase_words = split phrase_lemmatized;
          n = length phrase_words;
          text_words = split lemmatized_text
      in if fst (window_loop E text_words n phrase_lemmatized threshold 0
                   (py_range (int (length text_words) - int n + 1)))
         then True
         else if n > 1 \<and> phrase_word_loop E phrase_words text_words then True
         else False)"

subsection \<open>Data of a scoring call\<close>

text \<open>An entry of \<^verbatim>\<open>goals.json\<close>; the importance is the string the file holds.\<close>

record requirement =
  name :: string
  importance :: string

text \<open>\<^verbatim>\<open>config.json\<close>: \<open>None\<close> is an absent key.\<close>

record config =
  minimum_score_to_pass :: "real option"
  max_missing_skills :: "int option"
  model_goals_supported :: "string list"

record scoring_result =
  score :: real
  is_pass :: bool
  matched_skills :: "string list"
  missing_skills :: "string list"
  missing_skills_grouped :: "string \<rightharpoonup> string list"
  suggested_learning_path :: "string list"

datatype error = ValueError string | FileNotFoundError string | KeyError string

text \<open>What a call reads from disk, in order.\<close>

datatype event = Load_model string | Load_vectorizer string | Load_alternate_skills

subsection \<open>Loading\<close>

definition load_model :: "'obj env \<Rightarrow> string \<Rightarrow> error + 'obj" where
  "load_model E g =
     (let filename = replace_space g @ ''_model.pkl''
      in case model_dir E filename of
           None \<Rightarrow> Inl (FileNotFoundError filename)
         | Some m \<Rightarrow> Inr m)"

definition load_vectorizer :: "'obj env \<Rightarrow> string \<Rightarrow> error + 'obj" where
  "load_vectorizer E g =
     (let filename = replace_space g @ ''_vectorizer.pkl''
      in case model_dir E filename of
           None \<Rightarrow> Inl (FileNotFoundError filename)
         | Some v \<Rightarrow> Inr v)"

definition load_alternate_skills :: "'obj env \<Rightarrow> (string \<rightharpoonup> string list)" where
  "load_alternate_skills E =
     (case alternate_skills_json E of None \<Rightarrow> Map.empty | Some d \<Rightarrow> d)"

subsection \<open>Skill resolver\<close>

definition confidence_threshold :: int where
  "confidence_threshold = 70"

definition partial_threshold :: int where
  "partial_threshold = 55"

text \<open>The loop over the alternates of a skill: it breaks at the first alternate that
  matches, and the result is that alternate (\<open>found_alternate\<close> is \<open>True\<close>) or \<open>None\<close>.\<close>

fun alternate_loop :: "'obj env \<Rightarrow> string \<Rightarrow> string list \<Rightarrow> string option" where
  "alternate_loop E text [] = None"
| "alternate_loop E text (alt # alts) =
     (if phrase_in_lemmatized_text E alt text confidence_threshold then Some alt
      else alternate_loop E text alts)"

text \<open>The four branches of the loop body over the goal's skills.\<close>

datatype outcome = Matched_direct | Matched_alternate string | Matched_partial | Missing string

definition resolve_skill ::
  "'obj env \<Rightarrow> (string \<rightharpoonup> string list) \<Rightarrow> (string \<times> string) list \<Rightarrow> string \<Rightarrow> string \<Rightarrow> outcome" where
  "resolve_skill E alternate_skills_map goal_skills_with_importance text skill_name =
     (if phrase_in_lemmatized_text E skill_name text confidence_threshold then Matched_direct
      else
        (let found_alternate =
               (case alternate_skills_map skill_name of
                  None \<Rightarrow> None
                | Some alts \<Rightarrow> alternate_loop E text alts)
         in case found_alternate of
              Some alt \<Rightarrow> Matched_alternate alt
            | None \<Rightarrow>
                if phrase_in_lemmatized_text E skill_name text partial_threshold
                then Matched_partial
                else Missing (dict_get (map_of goal_skills_with_importance) skill_name ''unknown'')))"

text \<open>The loop over \<^verbatim>\<open>goal_skill_names\<close>, with the two lists it appends to.\<close>

fun match_loop ::
  "'obj env \<Rightarrow> (string \<rightharpoonup> string list) \<Rightarrow> (string \<times> string) list \<Rightarrow> string \<Rightarrow> string list \<Rightarrow>
   string list \<times> (string \<times> string) list \<Rightarrow> string list \<times> (string \<times> string) list" where
  "match_loop E am gswi text [] acc = acc"
| "match_loop E am gswi text (skill_name # rest) acc =
     (case resolve_skill E am gswi text skill_name of
        Missing imp \<Rightarrow>
          match_loop E am gswi text rest (fst acc, snd acc @ [(skill_name, imp)])
      | _ \<Rightarrow> match_loop E am gswi text rest (fst acc @ [skill_name], snd acc))"

subsection \<open>Score aggregator\<close>

definition importance_weights :: "string \<rightharpoonup> int" where
  "importance_weights = [''core'' \<mapsto> 3, ''important'' \<mapsto> 2, ''nice_to_have'' \<mapsto> 1]"

definition importance_order :: "string \<rightharpoonup> int" where
  "importance_order = [''core'' \<mapsto> 1, ''important'' \<mapsto> 2, ''nice_to_have'' \<mapsto> 3]"

text \<open>The summand of both sums.\<close>

definition skill_points :: "(string \<times> string) list \<Rightarrow> string \<Rightarrow> int" where
  "skill_points goal_skills_with_importance skill =
     dict_get importance_weights
       (dict_get (map_of goal_skills_with_importance) skill ''nice_to_have'') 0"

definition sum_skill_points :: "(string \<times> string) list \<Rightarrow> string list \<Rightarrow> int" where
  "sum_skill_points goal_skills_with_importance skills =
     sum_list (map (skill_points goal_skills_with_importance) skills)"

definition skill_score_of :: "int \<Rightarrow> int \<Rightarrow> real" where
  "skill_score_of matched_skill_points total_skill_points =
     (if total_skill_points > 0
      then real_of_int matched_skill_points / real_of_int total_skill_points
      else 0)"

definition model_weight :: real where
  "model_weight = 0.6"

definition skill_weight :: real where
  "skill_weight = 0.4"

definition final_score_of :: "real \<Rightarrow> real \<Rightarrow> real" where
  "final_score_of prob skill_score = model_weight * prob + skill_weight * skill_score"

subsection \<open>Insight builder\<close>

definition sorted_missing_skills :: "(string \<times> string) list \<Rightarrow> (string \<times> string) list" where
  "sorted_missing_skills all_missing_skills =
     sort_key (\<lambda>x. (dict_get importance_order (snd x) 99, fst x)) all_missing_skills"

definition capped_missing_skills_names :: "int \<Rightarrow> (string \<times> string) list \<Rightarrow> string list" where
  "capped_missing_skills_names cap all_missing_skills =
     slice_to (map fst (sorted_missing_skills all_missing_skills)) cap"

definition suggestions_for :: "(string \<rightharpoonup> string) \<Rightarrow> string list \<Rightarrow> string list" where
  "suggestions_for suggestion_map capped =
     map (\<lambda>skill_name. dict_get suggestion_map skill_name (''Learn basics of '' @ skill_name)) capped"

text \<open>The body of the loop over the goal's groups: the list stored under the group, or
  \<open>None\<close> when nothing is stored.\<close>

definition group_entry ::
  "(string \<Rightarrow> nat) \<Rightarrow> requirement list \<Rightarrow> string list \<Rightarrow> (string \<times> string) list \<Rightarrow> string list \<Rightarrow>
   string list option" where
  "group_entry h items matched all_missing_skills skills_in_group =
     (let group_skill_names =
            set_iter h (map name (filter (\<lambda>item. name item \<in> set skills_in_group) items));
          group_matched = filter (\<lambda>s. s \<in> set group_skill_names) matched
      in if group_matched \<noteq> [] then
           (let to_recommend = sort (filter (\<lambda>s. s \<notin> set matched) group_skill_names)
            in if to_recommend \<noteq> [] then Some to_recommend else None)
         else
           (let group_missing =
                  filter (\<lambda>skill_name. skill_name \<in> set group_skill_names) (map fst all_missing_skills)
            in if group_missing \<noteq> [] then Some (sort group_missing) else None))"

fun group_loop ::
  "(string \<Rightarrow> nat) \<Rightarrow> requirement list \<Rightarrow> string list \<Rightarrow> (string \<times> string) list \<Rightarrow>
   (string \<times> string list) list \<Rightarrow> (string \<rightharpoonup> string list) \<Rightarrow> (string \<rightharpoonup> string list)" where
  "group_loop h items matched all_missing_skills [] missing_grouped = missing_grouped"
| "group_loop h items matched all_missing_skills (g # rest) missing_grouped =
     group_loop h items matched all_missing_skills rest
       (case group_entry h items matched all_missing_skills (snd g) of
          None \<Rightarrow> missing_grouped
        | Some skills \<Rightarrow> missing_grouped(fst g \<mapsto> skills))"

subsection \<open>The scoring call\<close>

text \<open>The values \<^verbatim>\<open>score_resume\<close> computes once the model has given its probability.\<close>

definition goal_skills_with_importance ::
  "(string \<rightharpoonup> requirement list) \<Rightarrow> string \<Rightarrow> (string \<times> string) list" where
  "goal_skills_with_importance goals_map g =
     dict_of (map (\<lambda>item. (name item, importance item)) (dict_get goals_map g []))"

definition goal_skill_names :: "'obj env \<Rightarrow> (string \<rightharpoonup> requirement list) \<Rightarrow> string \<Rightarrow> string list" where
  "goal_skill_names E goals_map g =
     set_iter (hash_order E) (map fst (goal_skills_with_importance goals_map g))"

definition match_skills ::
  "'obj env \<Rightarrow> (string \<rightharpoonup> requirement list) \<Rightarrow> string \<Rightarrow> string \<Rightarrow> string list \<times> (string \<times> string) list" where
  "match_skills E goals_map g text =
     match_loop E (load_alternate_skills E) (goal_skills_with_importance goals_map g)
       (lemmatize_text_for_matching E text) (goal_skill_names E goals_map g) ([], [])"

definition score_resume ::
  "'obj env \<Rightarrow> string \<Rightarrow> string \<Rightarrow> string \<Rightarrow> config \<Rightarrow> (string \<rightharpoonup> requirement list) \<Rightarrow>
   (string \<rightharpoonup> string) \<Rightarrow> (string \<rightharpoonup> (string \<times> string list) list) \<Rightarrow>
   event list \<times> (error + scoring_result)" where
  "score_resume E sid g text cfg goals_map suggestion_map skill_groups =
     (if strip text = [] then ([], Inl (ValueError ''Resume text cannot be empty''))
      else case load_model E g of
        Inl e \<Rightarrow> ([Load_model g], Inl e)
      | Inr model \<Rightarrow>
         (case load_vectorizer E g of
            Inl e \<Rightarrow> ([Load_model g, Load_vectorizer g], Inl e)
          | Inr vectorizer \<Rightarrow>
             (let prob = positive_probability E model vectorizer text;
                  gswi = goal_skills_with_importance goals_map g;
                  names = goal_skill_names E goals_map g;
                  found = match_skills E goals_map g text;
                  matched = fst found;
                  all_missing_skills = snd found;
                  total_skill_points = sum_skill_points gswi names;
                  matched_skill_points = sum_skill_points gswi matched;
                  skill_score = skill_score_of matched_skill_points total_skill_points;
                  final_score = final_score_of prob skill_score;
                  events = [Load_model g, Load_vectorizer g, Load_alternate_skills]
              in case minimum_score_to_pass cfg of
                   None \<Rightarrow> (events, Inl (KeyError ''minimum_score_to_pass''))
                 | Some minimum \<Rightarrow>
                    (let capped = capped_missing_skills_names
                                    (case max_missing_skills cfg of None \<Rightarrow> 15 | Some m \<Rightarrow> m)
                                    all_missing_skills;
                         suggestions = suggestions_for suggestion_map capped;
                         missing_grouped =
                           group_loop (hash_order E) (dict_get goals_map g []) matched
                             all_missing_skills (dict_get skill_groups g []) Map.empty
                     in (events,
                         Inr \<lparr>score = final_score,
                              is_pass = (final_score \<ge> minimum),
                              matched_skills = sort matched,
                              missing_skills = sort capped,
                              missing_skills_grouped = missing_grouped,
                              suggested_learning_path = suggestions\<rparr>)))))"

subsection \<open>The scoring endpoint\<close>

record score_request =
  student_id :: string
  goal :: string
  resume_text :: string

datatype detail =
    Message string
  | Unsupported_goal string "string list"
  | Error_processing_resume error

datatype http_exception = HTTPException nat detail

definition post_score ::
  "'obj env \<Rightarrow> config \<Rightarrow> (string \<rightharpoonup> requirement list) \<Rightarrow> (string \<rightharpoonup> string) \<Rightarrow>
   (string \<rightharpoonup> (string \<times> string list) list) \<Rightarrow> score_request \<Rightarrow>
   event list \<times> (http_exception + scoring_result)" where
  "post_score E cfg goals_map suggestion_map skill_groups request =
     (if strip (resume_text request) = [] then
        ([], Inl (HTTPException 400 (Message ''Resume text cannot be empty'')))
      else if goal request \<notin> set (model_goals_supported cfg) then
        ([], Inl (HTTPException 400
                    (Unsupported_goal (goal request) (model_goals_supported cfg))))
      else
        (case score_resume E (student_id request) (goal request) (resume_text request)
                cfg goals_map suggestion_map skill_groups of
           (events, Inr result) \<Rightarrow> (events, Inr result)
         | (events, Inl (ValueError msg)) \<Rightarrow> (events, Inl (HTTPException 400 (Message msg)))
         | (events, Inl e) \<Rightarrow> (events, Inl (HTTPException 500 (Error_processing_resume e)))))"

subsection \<open>Example data\<close>

text \<open>A small installation used to run the definitions: the tokenizer splits at
  whitespace, the lemmatizer returns its word, the similarity is 100 on equal strings and
  0 otherwise, one goal \<open>G\<close> has its two artifacts, and the skill \<open>s\<close> has the
  alternates \<open>d\<close> and \<open>r\<close>.\<close>

definition example_env :: "nat env" where
  "example_env =
     \<lparr>word_tokenize = split,
      pos_tag = (\<lambda>w. CHR ''N''),
      wn_lemmatize = (\<lambda>w p. w),
      fuzz_ratio = (\<lambda>a b. if a = b then 100 else 0),
      model_dir = [''G_model.pkl'' \<mapsto> 0, ''G_vectorizer.pkl'' \<mapsto> 1],
      positive_probability = (\<lambda>m v t. 1 / 2),
      alternate_skills_json = Some [''s'' \<mapsto> [''d'', ''r'']],
      hash_order = (\<lambda>s. 0)\<rparr>"

definition example_goals :: "string \<rightharpoonup> requirement list" where
  "example_goals =
     [''G'' \<mapsto> [\<lparr>name = ''z'', importance = ''core''\<rparr>,
                \<lparr>name = ''a'', importance = ''nice_to_have''\<rparr>,
                \<lparr>name = ''s'', importance = ''important''\<rparr>]]"

definition example_config :: config where
  "example_config =
     \<lparr>minimum_score_to_pass = Some (1 / 2), max_missing_skills = Some 1,
      model_goals_supported = [''G'']\<rparr>"

definition example_goals_unknown :: "string \<rightharpoonup> requirement list" where
  "example_goals_unknown =
     [''G'' \<mapsto> [\<lparr>name = ''a'', importance = ''core''\<rparr>,
                \<lparr>name = ''b'', importance = ''critical''\<rparr>]]"

subsection \<open>Derived notions\<close>

text \<open>The condition under which the loop body reaches its last \<^verbatim>\<open>else\<close>: the direct
  attempt, every alternate of the skill and the partial attempt all fail.\<close>

definition all_attempts_fail :: "'obj env \<Rightarrow> (string \<rightharpoonup> string list) \<Rightarrow> string \<Rightarrow> string \<Rightarrow> bool" where
  "all_attempts_fail E am ltext s \<longleftrightarrow>
     \<not> phrase_in_lemmatized_text E s ltext 70 \<and>
     list_all (\<lambda>b. \<not> phrase_in_lemmatized_text E b ltext 70)
       (case am s of None \<Rightarrow> [] | Some l \<Rightarrow> l) \<and>
     \<not> phrase_in_lemmatized_text E s ltext 55"

subsection \<open>The score as the specification words it\<close>

text \<open>The weight of an importance tier: core 3, important 2, nice to have 1. An
  importance outside the three tiers weighs nothing.\<close>

definition spec_weight :: "string \<Rightarrow> int" where
  "spec_weight imp =
     (if imp = ''core'' then 3 else if imp = ''important'' then 2
      else if imp = ''nice_to_have'' then 1 else 0)"

text \<open>The skill score of the specification, for the set of matched names and the
  requirements \<open>(name, importance)\<close> of the goal: the sum of the weights of the matched
  requirements divided by the sum of the weights of all requirements, and 0 when there
  is no requirement (or no weight at all) to divide by.\<close>

definition spec_skill_score :: "string set \<Rightarrow> (string \<times> string) list \<Rightarrow> real" where
  "spec_skill_score matched reqs =
     (let total = (\<Sum>q\<leftarrow>reqs. spec_weight (snd q));
          got = (\<Sum>q\<leftarrow>filter (\<lambda>q. fst q \<in> matched) reqs. spec_weight (snd q))
      in if reqs = [] \<or> total = 0 then 0 else real_of_int got / real_of_int total)"

section \<open>Properties\<close>

subsection \<open>Fuzzy phrase matcher\<close>

lemma set_py_range: "set (py_range k) = {i. int i < k}"
  by (auto simp: py_range_def)

lemma window_loop_iff:
  "fst (window_loop E tw n pl th m is) \<longleftrightarrow>
     (\<exists>i\<in>set is. th \<le> fuzz_ratio E (join (slice tw i (i + n))) pl)"
  by (induction "is" arbitrary: m) (auto simp: Let_def)

lemma text_word_loop_iff:
  "text_word_loop E w tws \<longleftrightarrow> (\<exists>t\<in>set tws. 80 \<le> fuzz_ratio E w t)"
  by (induction tws) auto

lemma phrase_word_loop_iff:
  "phrase_word_loop E ws tws \<longleftrightarrow> (\<exists>w\<in>set ws. \<exists>t\<in>set tws. 80 \<le> fuzz_ratio E w t)"
  by (induction ws) (auto simp: text_word_loop_iff)

text \<open>
  Claim C4. For every phrase, normalized text and threshold, the matcher returns true
  exactly when some window of \<open>n\<close> consecutive text words (\<open>n\<close> the number of words of
  the normalized phrase) has a similarity of at least the threshold with the normalized
  phrase, or \<open>n > 1\<close> and some phrase word has a similarity of at least 80 with some text
  word.
\<close>

theorem phrase_in_lemmatized_text_iff:
  "phrase_in_lemmatized_text E phrase lemmatized_text threshold \<longleftrightarrow>
     (let phrase_lemmatized = lemmatize_text_for_matching E phrase;
          phrase_words = split phrase_lemmatized;
          n = length phrase_words;
          text_words = split lemmatized_text
      in (\<exists>i. i + n \<le> length text_words \<and>
               threshold \<le> fuzz_ratio E (join (take n (drop i text_words))) phrase_lemmatized)
         \<or> (1 < n \<and> (\<exists>w\<in>set phrase_words. \<exists>t\<in>set text_words. 80 \<le> fuzz_ratio E w t)))"
proof -
  have r: "set (py_range (int (length tw) - int n + 1)) = {i. i + n \<le> length tw}" for tw :: "string list" and n
    by (auto simp: set_py_range)
  show ?thesis
    unfolding phrase_in_lemmatized_text_def Let_def window_loop_iff phrase_word_loop_iff r
    by (auto simp: slice_def)
qed

lemma alternate_loop_None:
  "alternate_loop E text alts = None \<longleftrightarrow>
     (\<forall>a\<in>set alts. \<not> phrase_in_lemmatized_text E a text confidence_threshold)"
  by (induction alts) auto

lemma alternate_loop_Some:
  "alternate_loop E text alts = Some a \<longleftrightarrow>
     (\<exists>i<length alts. alts ! i = a \<and> phrase_in_lemmatized_text E a text confidence_threshold \<and>
        (\<forall>j<i. \<not> phrase_in_lemmatized_text E (alts ! j) text confidence_threshold))"
proof (induction alts)
  case Nil
  then show ?case by simp
next
  case (Cons b alts)
  show ?case
  proof (cases "phrase_in_lemmatized_text E b text confidence_threshold")
    case True
    have "(\<exists>i<length (b # alts). (b # alts) ! i = a \<and> phrase_in_lemmatized_text E a text confidence_threshold \<and>
        (\<forall>j<i. \<not> phrase_in_lemmatized_text E ((b # alts) ! j) text confidence_threshold)) \<longleftrightarrow> a = b"
    proof
      assume "\<exists>i<length (b # alts). (b # alts) ! i = a \<and> phrase_in_lemmatized_text E a text confidence_threshold \<and>
        (\<forall>j<i. \<not> phrase_in_lemmatized_text E ((b # alts) ! j) text confidence_threshold)"
      then obtain i where i: "(b # alts) ! i = a" "\<forall>j<i. \<not> phrase_in_lemmatized_text E ((b # alts) ! j) text confidence_threshold"
        by blast
      have "i = 0"
      proof (rule ccontr)
        assume "i \<noteq> 0"
        then have "0 < i" by simp
        with i(2) have "\<not> phrase_in_lemmatized_text E ((b # alts) ! 0) text confidence_threshold" by blast
        with True show False by simp
      qed
      with i(1) show "a = b" by simp
    next
      assume "a = b"
      with True show "\<exists>i<length (b # alts). (b # alts) ! i = a \<and> phrase_in_lemmatized_text E a text confidence_threshold \<and>
        (\<forall>j<i. \<not> phrase_in_lemmatized_text E ((b # alts) ! j) text confidence_threshold)"
        by (intro exI[of _ 0]) simp
    qed
    with True show ?thesis by auto
  next
    case False
    have "(\<exists>i<length (b # alts). (b # alts) ! i = a \<and> phrase_in_lemmatized_text E a text confidence_threshold \<and>
        (\<forall>j<i. \<not> phrase_in_lemmatized_text E ((b # alts) ! j) text confidence_threshold)) \<longleftrightarrow>
       (\<exists>i<length alts. alts ! i = a \<and> phrase_in_lemmatized_text E a text confidence_threshold \<and>
        (\<forall>j<i. \<not> phrase_in_lemmatized_text E (alts ! j) text confidence_threshold))" (is "?L \<longleftrightarrow> ?R")
    proof
      assume ?L
      then obtain i where i: "i < length (b # alts)" "(b # alts) ! i = a"
        "phrase_in_lemmatized_text E a text confidence_threshold"
        "\<forall>j<i. \<not> phrase_in_lemmatized_text E ((b # alts) ! j) text confidence_threshold"
        by blast
      from i(2,3) False have "i \<noteq> 0" by (cases i) auto
      then obtain k where k: "i = Suc k" by (cases i) auto
      have "\<forall>j<k. \<not> phrase_in_lemmatized_text E (alts ! j) text confidence_threshold"
      proof (intro allI impI)
        fix j assume "j < k"
        then have "Suc j < i" using k by simp
        with i(4) have "\<not> phrase_in_lemmatized_text E ((b # alts) ! Suc j) text confidence_threshold" by blast
        then show "\<not> phrase_in_lemmatized_text E (alts ! j) text confidence_threshold" by simp
      qed
      with i k show ?R by (intro exI[of _ k]) simp
    next
      assume ?R
      then obtain k where k: "k < length alts" "alts ! k = a"
        "phrase_in_lemmatized_text E a text confidence_threshold"
        "\<forall>j<k. \<not> phrase_in_lemmatized_text E (alts ! j) text confidence_threshold"
        by blast
      have "\<forall>j<Suc k. \<not> phrase_in_lemmatized_text E ((b # alts) ! j) text confidence_threshold"
      proof (intro allI impI)
        fix j assume "j < Suc k"
        then show "\<not> phrase_in_lemmatized_text E ((b # alts) ! j) text confidence_threshold"
          using False k(4) by (cases j) auto
      qed
      with k show ?L by (intro exI[of _ "Suc k"]) simp
    qed
    with False Cons.IH show ?thesis by simp
  qed
qed

text \<open>Evaluation in the example installation.\<close>

lemma example_lemmatize: "lemmatize_text_for_matching example_env [c] = join (split [lower_char c])"
  by (simp add: lemmatize_text_for_matching_def example_env_def lower_def)

lemma split_single: "\<not> is_space c \<Longrightarrow> split [c] = [[c]]"
  by (simp add: split_def)

lemma is_space_letters:
  "\<not> is_space CHR ''r''" "\<not> is_space CHR ''z''" "\<not> is_space CHR ''a''" "\<not> is_space CHR ''s''" "\<not> is_space CHR ''d''"
  by (simp_all add: is_space_def)

lemma lower_letters:
  "lower_char CHR ''r'' = CHR ''r''" "lower_char CHR ''z'' = CHR ''z''" "lower_char CHR ''a'' = CHR ''a''"
  "lower_char CHR ''s'' = CHR ''s''" "lower_char CHR ''d'' = CHR ''d''"
  by (simp_all add: lower_char_def)

lemma example_match:
  "\<not> is_space c \<Longrightarrow> \<not> is_space d \<Longrightarrow> lower_char c = c \<Longrightarrow> 0 < th \<Longrightarrow> th \<le> 100 \<Longrightarrow>
   phrase_in_lemmatized_text example_env [c] [d] th = (c = d)"
  by (simp add: phrase_in_lemmatized_text_def example_lemmatize split_single py_range_def slice_def)
     (simp add: example_env_def)

theorem phrase_in_lemmatized_text_iff_witness:
  "phrase_in_lemmatized_text example_env ''r'' ''r'' 70 \<and>
   \<not> phrase_in_lemmatized_text example_env ''z'' ''r'' 70"
  using phrase_in_lemmatized_text_iff [of example_env "''r''" "''r''" 70]
        phrase_in_lemmatized_text_iff [of example_env "''z''" "''r''" 70]
  by (simp add: example_lemmatize split_single is_space_letters lower_letters)
     (simp add: example_env_def)

subsection \<open>Rejections\<close>

lemma strip_empty_ball: "strip s = [] \<longleftrightarrow> (\<forall>c\<in>set s. is_space c)"
proof
  assume "strip s = []"
  then have e: "dropWhile is_space (rev (dropWhile is_space s)) = []"
    by (simp add: strip_def)
  have "dropWhile is_space s = []"
  proof (rule ccontr)
    assume n: "dropWhile is_space s \<noteq> []"
    then have "\<not> is_space (hd (dropWhile is_space s))" by (rule hd_dropWhile)
    moreover have "hd (dropWhile is_space s) \<in> set (rev (dropWhile is_space s))"
      using n by simp
    moreover from e have "\<forall>x\<in>set (rev (dropWhile is_space s)). is_space x"
      by (simp only: dropWhile_eq_Nil_conv)
    ultimately show False by blast
  qed
  then show "\<forall>c\<in>set s. is_space c" by (simp only: dropWhile_eq_Nil_conv)
next
  assume "\<forall>c\<in>set s. is_space c"
  then have d: "dropWhile is_space s = []" by (simp only: dropWhile_eq_Nil_conv)
  show "strip s = []" unfolding strip_def d by simp
qed

lemma strip_empty_iff: "strip s = [] \<longleftrightarrow> list_all is_space s"
  by (simp add: strip_empty_ball list_all_iff)

text \<open>
  Claim C8. For every resume text that is empty or consists of whitespace only, and
  for every goal, the scoring call fails with the empty-input error and its message,
  both in \<^verbatim>\<open>score_resume\<close> (a \<^verbatim>\<open>ValueError\<close>) and at the endpoint (status 400), and
  nothing has been loaded: the list of loads is empty.
\<close>

theorem empty_resume_text_rejected:
  assumes "list_all is_space text"
  shows "score_resume E sid g text cfg goals_map suggestion_map skill_groups =
           ([], Inl (ValueError ''Resume text cannot be empty'')) \<and>
         post_score E cfg goals_map suggestion_map skill_groups
            \<lparr>student_id = sid, goal = g, resume_text = text\<rparr> =
           ([], Inl (HTTPException 400 (Message ''Resume text cannot be empty'')))"
  using assms by (simp add: score_resume_def post_score_def strip_empty_iff)

theorem empty_resume_text_rejected_witness:
  "list_all is_space [CHR 0x20, CHR 0x09, CHR 0x0A] \<and>
   score_resume example_env ''7'' ''G'' [CHR 0x20, CHR 0x09, CHR 0x0A] example_config
       example_goals Map.empty Map.empty =
     ([], Inl (ValueError ''Resume text cannot be empty'')) \<and>
   post_score example_env example_config example_goals Map.empty Map.empty
       \<lparr>student_id = ''7'', goal = ''G'', resume_text = [CHR 0x20, CHR 0x09, CHR 0x0A]\<rparr> =
     ([], Inl (HTTPException 400 (Message ''Resume text cannot be empty'')))"
proof -
  have h: "list_all is_space [CHR 0x20, CHR 0x09, CHR 0x0A]"
    by (simp add: is_space_def)
  from empty_resume_text_rejected [OF h, of example_env "''7''" "''G''" example_config
         example_goals Map.empty Map.empty] h
  show ?thesis by blast
qed

text \<open>
  Claim C9. For a resume text that is not blank and a goal that is absent from
  \<^verbatim>\<open>model_goals_supported\<close>, the endpoint fails with status 400 and the unsupported-goal
  detail before any load; a supported goal whose model or vectorizer file is missing
  fails differently, with status 500 and the \<^verbatim>\<open>FileNotFoundError\<close>, after the load was
  attempted.
\<close>

theorem unsupported_goal_rejected:
  assumes "\<not> list_all is_space text"
  shows "(g \<notin> set (model_goals_supported cfg) \<longrightarrow>
            post_score E cfg goals_map suggestion_map skill_groups
               \<lparr>student_id = sid, goal = g, resume_text = text\<rparr> =
              ([], Inl (HTTPException 400 (Unsupported_goal g (model_goals_supported cfg))))) \<and>
         (g \<in> set (model_goals_supported cfg) \<and>
          model_dir E (replace_space g @ ''_model.pkl'') = None \<longrightarrow>
            post_score E cfg goals_map suggestion_map skill_groups
               \<lparr>student_id = sid, goal = g, resume_text = text\<rparr> =
              ([Load_model g],
               Inl (HTTPException 500 (Error_processing_resume
                      (FileNotFoundError (replace_space g @ ''_model.pkl'')))))) \<and>
         (g \<in> set (model_goals_supported cfg) \<and>
          model_dir E (replace_space g @ ''_model.pkl'') \<noteq> None \<and>
          model_dir E (replace_space g @ ''_vectorizer.pkl'') = None \<longrightarrow>
            post_score E cfg goals_map suggestion_map skill_groups
               \<lparr>student_id = sid, goal = g, resume_text = text\<rparr> =
              ([Load_model g, Load_vectorizer g],
               Inl (HTTPException 500 (Error_processing_resume
                      (FileNotFoundError (replace_space g @ ''_vectorizer.pkl''))))))"
proof -
  from assms have s: "strip text \<noteq> []" by (simp add: strip_empty_iff)
  show ?thesis
    using s
    by (auto simp: post_score_def score_resume_def load_model_def load_vectorizer_def Let_def)
qed

theorem unsupported_goal_rejected_witness:
  "\<not> list_all is_space ''r'' \<and>
   ''H'' \<notin> set (model_goals_supported example_config) \<and>
   post_score example_env example_config example_goals Map.empty Map.empty
      \<lparr>student_id = ''7'', goal = ''H'', resume_text = ''r''\<rparr> =
     ([], Inl (HTTPException 400 (Unsupported_goal ''H'' [''G'']))) \<and>
   ''H'' \<in> set (model_goals_supported (example_config\<lparr>model_goals_supported := [''G'', ''H'']\<rparr>)) \<and>
   model_dir example_env (replace_space ''H'' @ ''_model.pkl'') = None \<and>
   post_score example_env (example_config\<lparr>model_goals_supported := [''G'', ''H'']\<rparr>)
      example_goals Map.empty Map.empty
      \<lparr>student_id = ''7'', goal = ''H'', resume_text = ''r''\<rparr> =
     ([Load_model ''H''],
      Inl (HTTPException 500 (Error_processing_resume (FileNotFoundError ''H_model.pkl'')))) \<and>
   model_dir (example_env\<lparr>model_dir := [''G_model.pkl'' \<mapsto> 0]\<rparr>)
      (replace_space ''G'' @ ''_vectorizer.pkl'') = None \<and>
   post_score (example_env\<lparr>model_dir := [''G_model.pkl'' \<mapsto> 0]\<rparr>) example_config
      example_goals Map.empty Map.empty
      \<lparr>student_id = ''7'', goal = ''G'', resume_text = ''r''\<rparr> =
     ([Load_model ''G'', Load_vectorizer ''G''],
      Inl (HTTPException 500 (Error_processing_resume (FileNotFoundError ''G_vectorizer.pkl''))))"
proof -
  have h: "\<not> list_all is_space ''r''"
    by (simp add: is_space_def)
  have a: "''H'' \<notin> set (model_goals_supported example_config)"
    by (simp add: example_config_def)
  have b: "''H'' \<in> set (model_goals_supported (example_config\<lparr>model_goals_supported := [''G'', ''H'']\<rparr>))"
    by simp
  have c: "model_dir example_env (replace_space ''H'' @ ''_model.pkl'') = None"
    by (simp add: example_env_def replace_space_def)
  have d: "''G'' \<in> set (model_goals_supported example_config)"
    by (simp add: example_config_def)
  have e: "model_dir (example_env\<lparr>model_dir := [''G_model.pkl'' \<mapsto> 0]\<rparr>)
             (replace_space ''G'' @ ''_model.pkl'') \<noteq> None"
    by (simp add: replace_space_def)
  have f: "model_dir (example_env\<lparr>model_dir := [''G_model.pkl'' \<mapsto> 0]\<rparr>)
             (replace_space ''G'' @ ''_vectorizer.pkl'') = None"
    by (simp add: replace_space_def)
  have r: "replace_space ''H'' = ''H''" "replace_space ''G'' = ''G''"
    by (simp_all add: replace_space_def)
  have s: "model_goals_supported example_config = [''G'']"
    by (simp add: example_config_def)
  note t1 = unsupported_goal_rejected [OF h, of "''H''" example_config example_env example_goals
      Map.empty Map.empty "''7''"]
  note t2 = unsupported_goal_rejected [OF h, of "''H''"
      "example_config\<lparr>model_goals_supported := [''G'', ''H'']\<rparr>" example_env example_goals
      Map.empty Map.empty "''7''"]
  note t3 = unsupported_goal_rejected [OF h, of "''G''" example_config
      "example_env\<lparr>model_dir := [''G_model.pkl'' \<mapsto> 0]\<rparr>" example_goals
      Map.empty Map.empty "''7''"]
  from t1 a s have 1: "post_score example_env example_config example_goals Map.empty Map.empty
      \<lparr>student_id = ''7'', goal = ''H'', resume_text = ''r''\<rparr> =
     ([], Inl (HTTPException 400 (Unsupported_goal ''H'' [''G''])))"
    by simp
  from t2 b c r have 2: "post_score example_env (example_config\<lparr>model_goals_supported := [''G'', ''H'']\<rparr>)
      example_goals Map.empty Map.empty
      \<lparr>student_id = ''7'', goal = ''H'', resume_text = ''r''\<rparr> =
     ([Load_model ''H''],
      Inl (HTTPException 500 (Error_processing_resume (FileNotFoundError ''H_model.pkl''))))"
    by simp
  from t3 d e f r have 3: "post_score (example_env\<lparr>model_dir := [''G_model.pkl'' \<mapsto> 0]\<rparr>) example_config
      example_goals Map.empty Map.empty
      \<lparr>student_id = ''7'', goal = ''G'', resume_text = ''r''\<rparr> =
     ([Load_model ''G'', Load_vectorizer ''G''],
      Inl (HTTPException 500 (Error_processing_resume (FileNotFoundError ''G_vectorizer.pkl''))))"
    by simp
  from h a b c f 1 2 3 show ?thesis by blast
qed

subsection \<open>Skill resolver\<close>

lemma resolve_skill_cases:
  "resolve_skill E am gswi text s =
     (if phrase_in_lemmatized_text E s text confidence_threshold then Matched_direct
      else case alternate_loop E text (case am s of None \<Rightarrow> [] | Some alts \<Rightarrow> alts) of
             Some a \<Rightarrow> Matched_alternate a
           | None \<Rightarrow>
               if phrase_in_lemmatized_text E s text partial_threshold then Matched_partial
               else Missing (dict_get (map_of gswi) s ''unknown''))"
  by (simp add: resolve_skill_def Let_def split: option.splits)

subsection \<open>Score aggregator\<close>

lemma importance_weights_known:
  "importance_weights ''core'' = Some 3" "importance_weights ''important'' = Some 2"
  "importance_weights ''nice_to_have'' = Some 1"
  by (simp_all add: importance_weights_def)

lemma importance_weights_unknown:
  "imp \<notin> {''core'', ''important'', ''nice_to_have''} \<Longrightarrow> importance_weights imp = None"
  by (simp add: importance_weights_def)

lemma example_goals_unknown_dict:
  "goal_skills_with_importance example_goals_unknown ''G'' = [(''a'', ''core''), (''b'', ''critical'')]"
  by (simp add: goal_skills_with_importance_def example_goals_unknown_def dict_get_def dict_of_def)

text \<open>
  Claim C2 says that a required skill whose importance is none of \<open>core\<close>,
  \<open>important\<close>, \<open>nice_to_have\<close> weighs as \<open>nice_to_have\<close> (1) in the denominator.
  It does not: with the requirements \<open>a\<close> (core) and \<open>b\<close> (critical) the sum over all
  requirements is 3, not 4; the skill \<open>b\<close> weighs 0.
\<close>

theorem unknown_importance_counterexample:
  "sum_skill_points (goal_skills_with_importance example_goals_unknown ''G'') [''a'', ''b''] = 3 \<and>
   skill_points (goal_skills_with_importance example_goals_unknown ''G'') ''b'' = 0 \<and>
   dict_get importance_weights ''nice_to_have'' 0 = 1"
  by (simp add: example_goals_unknown_dict sum_skill_points_def skill_points_def dict_get_def
      importance_weights_known importance_weights_unknown)

text \<open>
  Claim C2, amended. A required skill whose importance is none of \<open>core\<close>,
  \<open>important\<close>, \<open>nice_to_have\<close> weighs 0: it adds nothing to the sum over all
  requirements nor, matched or not, to the sum over the matched ones. (The default
  \<open>nice_to_have\<close> of the inner lookup applies to a name without an entry, and every
  name that is summed has one.)
\<close>

theorem unknown_importance_weighs_nothing:
  assumes "map_of gswi s = Some imp"
    and "imp \<notin> {''core'', ''important'', ''nice_to_have''}"
  shows "skill_points gswi s = 0 \<and>
         sum_skill_points gswi (xs @ s # ys) = sum_skill_points gswi (xs @ ys)"
proof -
  from assms have "skill_points gswi s = 0"
    by (simp add: skill_points_def dict_get_def importance_weights_unknown)
  then show ?thesis by (simp add: sum_skill_points_def)
qed

theorem unknown_importance_weighs_nothing_witness:
  "map_of [(''a'', ''core''), (''b'', ''critical'')] ''b'' = Some ''critical'' \<and>
   ''critical'' \<notin> {''core'', ''important'', ''nice_to_have''} \<and>
   skill_points [(''a'', ''core''), (''b'', ''critical'')] ''b'' = 0 \<and>
   sum_skill_points [(''a'', ''core''), (''b'', ''critical'')] [''a'', ''b''] =
     sum_skill_points [(''a'', ''core''), (''b'', ''critical'')] [''a'']"
proof -
  have h1: "map_of [(''a'', ''core''), (''b'', ''critical'')] ''b'' = Some ''critical''" by simp
  have h2: "''critical'' \<notin> {''core'', ''important'', ''nice_to_have''}" by simp
  from unknown_importance_weighs_nothing [OF h1 h2, of "[''a'']" "[]"] h1 h2
  show ?thesis by simp
qed

subsection \<open>Dictionaries and the loop over the required skills\<close>

lemma dict_store_keys: "fst ` set (dict_store k v d) = insert k (fst ` set d)"
  by (induction d) auto

lemma dict_store_distinct: "distinct (map fst d) \<Longrightarrow> distinct (map fst (dict_store k v d))"
proof (induction d)
  case Nil
  then show ?case by simp
next
  case (Cons p d)
  have "fst p \<notin> fst ` set (dict_store k v d)" if "fst p \<noteq> k"
    using Cons.prems that by (simp add: dict_store_keys)
  with Cons show ?case by auto
qed

lemma dict_store_subset: "set (dict_store k v d) \<subseteq> insert (k, v) (set d)"
  by (induction d) auto

lemma dict_fold_keys:
  "fst ` set (fold (\<lambda>p d. dict_store (fst p) (snd p) d) ps d) = fst ` set ps \<union> fst ` set d"
  by (induction ps arbitrary: d) (auto simp: dict_store_keys)

lemma dict_fold_distinct:
  "distinct (map fst d) \<Longrightarrow> distinct (map fst (fold (\<lambda>p d. dict_store (fst p) (snd p) d) ps d))"
  by (induction ps arbitrary: d) (auto simp: dict_store_distinct)

lemma dict_fold_subset:
  "set (fold (\<lambda>p d. dict_store (fst p) (snd p) d) ps d) \<subseteq> set ps \<union> set d"
proof (induction ps arbitrary: d)
  case Nil
  then show ?case by simp
next
  case (Cons p ps)
  have "set (dict_store (fst p) (snd p) d) \<subseteq> insert p (set d)"
    using dict_store_subset [of "fst p" "snd p" d] by simp
  with Cons.IH [of "dict_store (fst p) (snd p) d"] show ?case by auto
qed

lemma dict_of_keys: "fst ` set (dict_of ps) = fst ` set ps"
  by (simp add: dict_of_def dict_fold_keys)

lemma dict_of_distinct: "distinct (map fst (dict_of ps))"
  by (simp add: dict_of_def dict_fold_distinct)

lemma dict_of_subset: "set (dict_of ps) \<subseteq> set ps"
  using dict_fold_subset [of ps "[]"] by (simp add: dict_of_def)

lemma goal_dict_distinct: "distinct (map fst (goal_skills_with_importance goals_map g))"
  by (simp add: goal_skills_with_importance_def dict_of_distinct)

lemma goal_dict_keys:
  "fst ` set (goal_skills_with_importance goals_map g) = name ` set (dict_get goals_map g [])"
  by (simp add: goal_skills_with_importance_def dict_of_keys image_image)

lemma goal_dict_entry:
  assumes "(n, i) \<in> set (goal_skills_with_importance goals_map g)"
  shows "\<exists>item\<in>set (dict_get goals_map g []). name item = n \<and> importance item = i"
proof -
  from assms dict_of_subset
  have "(n, i) \<in> set (map (\<lambda>item. (name item, importance item)) (dict_get goals_map g []))"
    unfolding goal_skills_with_importance_def by blast
  then show ?thesis by auto
qed

lemma set_iter_set: "set (set_iter h xs) = set xs"
  by (simp add: set_iter_def)

lemma set_iter_distinct: "distinct (set_iter h xs)"
  by (simp add: set_iter_def)

lemma goal_names_set:
  "set (goal_skill_names E goals_map g) = fst ` set (goal_skills_with_importance goals_map g)"
  by (simp add: goal_skill_names_def set_iter_set)

lemma goal_names_distinct: "distinct (goal_skill_names E goals_map g)"
  by (simp add: goal_skill_names_def set_iter_distinct)

lemma goal_names_lookup:
  assumes "s \<in> set (goal_skill_names E goals_map g)"
  shows "\<exists>i. map_of (goal_skills_with_importance goals_map g) s = Some i"
proof -
  from assms have "s \<in> fst ` set (goal_skills_with_importance goals_map g)"
    by (simp add: goal_names_set)
  then have "map_of (goal_skills_with_importance goals_map g) s \<noteq> None"
    by (simp add: map_of_eq_None_iff)
  then show ?thesis by blast
qed

lemma alternate_loop_None_all:
  "alternate_loop E ltext alts = None \<longleftrightarrow>
     list_all (\<lambda>b. \<not> phrase_in_lemmatized_text E b ltext 70) alts"
  by (simp add: alternate_loop_None list_all_iff confidence_threshold_def)

lemma resolve_skill_Missing:
  "(\<exists>imp. resolve_skill E am gswi ltext s = Missing imp) \<longleftrightarrow> all_attempts_fail E am ltext s"
  "all_attempts_fail E am ltext s \<Longrightarrow>
     resolve_skill E am gswi ltext s = Missing (dict_get (map_of gswi) s ''unknown'')"
proof -
  let ?alts = "case am s of None \<Rightarrow> [] | Some l \<Rightarrow> l"
  show "(\<exists>imp. resolve_skill E am gswi ltext s = Missing imp) \<longleftrightarrow> all_attempts_fail E am ltext s"
  proof (cases "alternate_loop E ltext ?alts")
    case None
    then have "list_all (\<lambda>b. \<not> phrase_in_lemmatized_text E b ltext 70) ?alts"
      by (simp add: alternate_loop_None_all)
    with None show ?thesis
      by (simp add: resolve_skill_cases all_attempts_fail_def confidence_threshold_def
          partial_threshold_def)
  next
    case (Some a)
    then have "\<not> list_all (\<lambda>b. \<not> phrase_in_lemmatized_text E b ltext 70) ?alts"
      using alternate_loop_None_all [of E ltext ?alts] by simp
    with Some show ?thesis
      by (simp add: resolve_skill_cases all_attempts_fail_def)
  qed
  show "resolve_skill E am gswi ltext s = Missing (dict_get (map_of gswi) s ''unknown'')"
    if "all_attempts_fail E am ltext s"
  proof -
    from that have "alternate_loop E ltext ?alts = None"
      by (simp add: alternate_loop_None_all all_attempts_fail_def)
    with that show ?thesis
      by (simp add: resolve_skill_cases all_attempts_fail_def confidence_threshold_def
          partial_threshold_def)
  qed
qed

lemma match_loop_eq:
  "match_loop E am gswi ltext names acc =
     (fst acc @ filter (\<lambda>s. \<not> all_attempts_fail E am ltext s) names,
      snd acc @ map (\<lambda>s. (s, dict_get (map_of gswi) s ''unknown''))
                  (filter (all_attempts_fail E am ltext) names))"
proof (induction names arbitrary: acc)
  case Nil
  then show ?case by simp
next
  case (Cons s names)
  show ?case
  proof (cases "all_attempts_fail E am ltext s")
    case True
    then have "resolve_skill E am gswi ltext s = Missing (dict_get (map_of gswi) s ''unknown'')"
      by (rule resolve_skill_Missing(2))
    with True Cons.IH show ?thesis by simp
  next
    case False
    then have "\<nexists>imp. resolve_skill E am gswi ltext s = Missing imp"
      by (simp add: resolve_skill_Missing(1))
    with False Cons.IH show ?thesis
      by (cases "resolve_skill E am gswi ltext s") simp_all
  qed
qed

lemma match_skills_eq:
  "match_skills E goals_map g resume =
     (filter (\<lambda>s. \<not> all_attempts_fail E (load_alternate_skills E)
                      (lemmatize_text_for_matching E resume) s)
        (goal_skill_names E goals_map g),
      map (\<lambda>s. (s, dict_get (map_of (goal_skills_with_importance goals_map g)) s ''unknown''))
        (filter (all_attempts_fail E (load_alternate_skills E)
                   (lemmatize_text_for_matching E resume))
           (goal_skill_names E goals_map g)))"
  by (simp add: match_skills_def match_loop_eq)

lemma missing_importance:
  assumes "p \<in> set (snd (match_skills E goals_map g resume))"
  shows "map_of (goal_skills_with_importance goals_map g) (fst p) = Some (snd p)"
proof -
  from assms obtain s where s: "s \<in> set (goal_skill_names E goals_map g)"
    "p = (s, dict_get (map_of (goal_skills_with_importance goals_map g)) s ''unknown'')"
    by (auto simp: match_skills_eq)
  from goal_names_lookup [OF s(1)] obtain i
    where "map_of (goal_skills_with_importance goals_map g) s = Some i" by blast
  with s(2) show ?thesis by (simp add: dict_get_def)
qed

subsection \<open>The scoring call, and the example call\<close>

lemma score_resume_ok:
  assumes "strip resume \<noteq> []" and "load_model E g = Inr model"
    and "load_vectorizer E g = Inr vectorizer" and "minimum_score_to_pass cfg = Some minimum"
  shows "score_resume E sid g resume cfg goals_map suggestion_map skill_groups =
    ([Load_model g, Load_vectorizer g, Load_alternate_skills],
     Inr \<lparr>score = final_score_of (positive_probability E model vectorizer resume)
                   (skill_score_of
                      (sum_skill_points (goal_skills_with_importance goals_map g)
                         (fst (match_skills E goals_map g resume)))
                      (sum_skill_points (goal_skills_with_importance goals_map g)
                         (goal_skill_names E goals_map g))),
          is_pass = (final_score_of (positive_probability E model vectorizer resume)
                   (skill_score_of
                      (sum_skill_points (goal_skills_with_importance goals_map g)
                         (fst (match_skills E goals_map g resume)))
                      (sum_skill_points (goal_skills_with_importance goals_map g)
                         (goal_skill_names E goals_map g))) \<ge> minimum),
          matched_skills = sort (fst (match_skills E goals_map g resume)),
          missing_skills = sort (capped_missing_skills_names
                                   (case max_missing_skills cfg of None \<Rightarrow> 15 | Some m \<Rightarrow> m)
                                   (snd (match_skills E goals_map g resume))),
          missing_skills_grouped =
            group_loop (hash_order E) (dict_get goals_map g [])
              (fst (match_skills E goals_map g resume)) (snd (match_skills E goals_map g resume))
              (dict_get skill_groups g []) Map.empty,
          suggested_learning_path =
            suggestions_for suggestion_map
              (capped_missing_skills_names
                 (case max_missing_skills cfg of None \<Rightarrow> 15 | Some m \<Rightarrow> m)
                 (snd (match_skills E goals_map g resume)))\<rparr>)"
  using assms by (simp add: score_resume_def Let_def)

lemma score_resume_Inr:
  assumes "score_resume E sid g resume cfg goals_map suggestion_map skill_groups = (evs, Inr r)"
  obtains model vectorizer minimum where "strip resume \<noteq> []" and "load_model E g = Inr model"
    and "load_vectorizer E g = Inr vectorizer" and "minimum_score_to_pass cfg = Some minimum"
  using assms
  by (auto simp: score_resume_def Let_def split: if_splits sum.splits option.splits)

lemma example_loads:
  "load_model example_env ''G'' = Inr 0" "load_vectorizer example_env ''G'' = Inr 1"
  "load_alternate_skills example_env ''s'' = Some [''d'', ''r'']"
  "load_alternate_skills example_env ''z'' = None"
  "load_alternate_skills example_env ''a'' = None"
  by (simp_all add: load_model_def load_vectorizer_def load_alternate_skills_def example_env_def
      replace_space_def)

lemma example_goals_dict:
  "dict_get example_goals ''G'' [] =
     [\<lparr>name = ''z'', importance = ''core''\<rparr>, \<lparr>name = ''a'', importance = ''nice_to_have''\<rparr>,
      \<lparr>name = ''s'', importance = ''important''\<rparr>]"
  "goal_skills_with_importance example_goals ''G'' =
     [(''z'', ''core''), (''a'', ''nice_to_have''), (''s'', ''important'')]"
  by (simp_all add: goal_skills_with_importance_def example_goals_def dict_get_def dict_of_def)

lemma example_goal_names: "goal_skill_names example_env example_goals ''G'' = [''z'', ''a'', ''s'']"
  by (simp add: goal_skill_names_def example_goals_dict set_iter_def example_env_def)

lemma example_text: "lemmatize_text_for_matching example_env ''r'' = ''r''" "strip ''r'' \<noteq> []"
  by (simp_all add: example_lemmatize split_single is_space_letters lower_letters strip_def)

lemma example_phrases:
  "\<not> phrase_in_lemmatized_text example_env ''s'' ''r'' 70"
  "\<not> phrase_in_lemmatized_text example_env ''s'' ''r'' 55"
  "\<not> phrase_in_lemmatized_text example_env ''d'' ''r'' 70"
  "phrase_in_lemmatized_text example_env ''r'' ''r'' 70"
  "\<not> phrase_in_lemmatized_text example_env ''z'' ''r'' 70"
  "\<not> phrase_in_lemmatized_text example_env ''z'' ''r'' 55"
  "\<not> phrase_in_lemmatized_text example_env ''a'' ''r'' 70"
  "\<not> phrase_in_lemmatized_text example_env ''a'' ''r'' 55"
  by (simp_all add: example_match is_space_letters lower_letters)

lemma example_match_skills:
  "match_skills example_env example_goals ''G'' ''r'' =
     ([''s''], [(''z'', ''core''), (''a'', ''nice_to_have'')])"
  by (simp add: match_skills_eq example_goal_names example_goals_dict example_text
      all_attempts_fail_def example_loads example_phrases dict_get_def)

subsection \<open>The skill resolver in the loop\<close>

text \<open>
  Claim C3. For every required skill \<open>s\<close>, the resolver tries in order: a direct match
  of \<open>s\<close> at threshold 70; then the alternates of \<open>s\<close> in table order at threshold 70,
  stopping at the first that matches (the alternate at the least index \<open>i\<close>); then a
  match of \<open>s\<close> at threshold 55; and \<open>s\<close> is missing only when all three fail. A skill
  without an entry in the alternate table has no alternates to try. The loop over a
  list of skills appends to the matched list exactly the skills for which some attempt
  succeeds, and to the missing list exactly the others, each with its importance, both
  in the order of the iteration. In a scoring call the loop runs over the names of the
  goal's requirements, each once, the importance recorded with a missing skill is the
  one the goal gives it, and the result returns the matched names sorted and the
  missing names capped and sorted.
\<close>

theorem resolve_skill_order:
  fixes E :: "'obj env"
  defines "M \<equiv> \<lambda>ltext phrase threshold. phrase_in_lemmatized_text E phrase ltext threshold"
  defines "alts_of \<equiv> \<lambda>am s. (case am s of None \<Rightarrow> [] | Some l \<Rightarrow> l)"
  defines "fails \<equiv> \<lambda>am ltext s.
     \<not> M ltext s 70 \<and> (\<forall>b\<in>set (alts_of am s). \<not> M ltext b 70) \<and> \<not> M ltext s 55"
  shows
  "(resolve_skill E am gswi ltext s = Matched_direct \<longleftrightarrow> M ltext s 70) \<and>
   (resolve_skill E am gswi ltext s = Matched_alternate a \<longleftrightarrow>
      \<not> M ltext s 70 \<and>
      (\<exists>i<length (alts_of am s). alts_of am s ! i = a \<and> M ltext a 70 \<and>
         (\<forall>j<i. \<not> M ltext (alts_of am s ! j) 70))) \<and>
   (resolve_skill E am gswi ltext s = Matched_partial \<longleftrightarrow>
      \<not> M ltext s 70 \<and> (\<forall>b\<in>set (alts_of am s). \<not> M ltext b 70) \<and> M ltext s 55) \<and>
   (resolve_skill E am gswi ltext s = Missing imp \<longleftrightarrow>
      fails am ltext s \<and> imp = dict_get (map_of gswi) s ''unknown'') \<and>
   (am s = None \<longrightarrow> alts_of am s = []) \<and>
   match_loop E am gswi ltext names acc =
     (fst acc @ filter (\<lambda>s. \<not> fails am ltext s) names,
      snd acc @ map (\<lambda>s. (s, dict_get (map_of gswi) s ''unknown'')) (filter (fails am ltext) names)) \<and>
   match_skills E goals_map g resume =
     (filter (\<lambda>s. \<not> fails (load_alternate_skills E) (lemmatize_text_for_matching E resume) s)
        (goal_skill_names E goals_map g),
      map (\<lambda>s. (s, dict_get (map_of (goal_skills_with_importance goals_map g)) s ''unknown''))
        (filter (fails (load_alternate_skills E) (lemmatize_text_for_matching E resume))
           (goal_skill_names E goals_map g))) \<and>
   set (goal_skill_names E goals_map g) = name ` set (dict_get goals_map g []) \<and>
   distinct (goal_skill_names E goals_map g) \<and>
   (\<forall>p\<in>set (snd (match_skills E goals_map g resume)).
      map_of (goal_skills_with_importance goals_map g) (fst p) = Some (snd p) \<and>
      (\<exists>item\<in>set (dict_get goals_map g []). name item = fst p \<and> importance item = snd p)) \<and>
   (score_resume E sid g resume cfg goals_map suggestion_map skill_groups = (evs, Inr r) \<longrightarrow>
      matched_skills r =
        sort (filter (\<lambda>s. \<not> fails (load_alternate_skills E) (lemmatize_text_for_matching E resume) s)
                (goal_skill_names E goals_map g)) \<and>
      missing_skills r =
        sort (capped_missing_skills_names
                (case max_missing_skills cfg of None \<Rightarrow> 15 | Some m \<Rightarrow> m)
                (map (\<lambda>s. (s, dict_get (map_of (goal_skills_with_importance goals_map g)) s ''unknown''))
                   (filter (fails (load_alternate_skills E) (lemmatize_text_for_matching E resume))
                      (goal_skill_names E goals_map g)))))"
proof -
  have f: "fails am ltext s = all_attempts_fail E am ltext s" for am ltext s
    by (simp add: fails_def alts_of_def M_def all_attempts_fail_def list_all_iff)
  have r: "resolve_skill E am gswi ltext s =
     (if M ltext s 70 then Matched_direct
      else case alternate_loop E ltext (alts_of am s) of
             Some a \<Rightarrow> Matched_alternate a
           | None \<Rightarrow>
               if M ltext s 55 then Matched_partial
               else Missing (dict_get (map_of gswi) s ''unknown''))"
    unfolding alts_of_def M_def resolve_skill_cases
    by (simp add: confidence_threshold_def partial_threshold_def)
  have none: "alternate_loop E ltext (alts_of am s) = None \<longleftrightarrow>
      (\<forall>b\<in>set (alts_of am s). \<not> M ltext b 70)"
    by (simp add: alternate_loop_None M_def confidence_threshold_def)
  have some: "alternate_loop E ltext (alts_of am s) = Some a \<longleftrightarrow>
      (\<exists>i<length (alts_of am s). alts_of am s ! i = a \<and> M ltext a 70 \<and>
         (\<forall>j<i. \<not> M ltext (alts_of am s ! j) 70))" for a
    by (simp add: alternate_loop_Some M_def confidence_threshold_def)
  have 1: "resolve_skill E am gswi ltext s = Matched_direct \<longleftrightarrow> M ltext s 70"
    by (simp add: r split: option.splits)
  have 2: "resolve_skill E am gswi ltext s = Matched_alternate a \<longleftrightarrow>
      \<not> M ltext s 70 \<and>
      (\<exists>i<length (alts_of am s). alts_of am s ! i = a \<and> M ltext a 70 \<and>
         (\<forall>j<i. \<not> M ltext (alts_of am s ! j) 70))"
    unfolding some [symmetric] by (simp add: r split: option.splits)
  have 3: "resolve_skill E am gswi ltext s = Matched_partial \<longleftrightarrow>
      \<not> M ltext s 70 \<and> (\<forall>b\<in>set (alts_of am s). \<not> M ltext b 70) \<and> M ltext s 55"
    unfolding none [symmetric] by (simp add: r split: option.splits)
  have 4: "resolve_skill E am gswi ltext s = Missing imp \<longleftrightarrow>
      fails am ltext s \<and> imp = dict_get (map_of gswi) s ''unknown''"
    unfolding fails_def none [symmetric] by (auto simp: r split: option.splits)
  have 5: "am s = None \<longrightarrow> alts_of am s = []"
    by (simp add: alts_of_def)
  have 6: "match_loop E am gswi ltext names acc =
     (fst acc @ filter (\<lambda>s. \<not> fails am ltext s) names,
      snd acc @ map (\<lambda>s. (s, dict_get (map_of gswi) s ''unknown'')) (filter (fails am ltext) names))"
    unfolding f by (rule match_loop_eq)
  have 7: "match_skills E goals_map g resume =
     (filter (\<lambda>s. \<not> fails (load_alternate_skills E) (lemmatize_text_for_matching E resume) s)
        (goal_skill_names E goals_map g),
      map (\<lambda>s. (s, dict_get (map_of (goal_skills_with_importance goals_map g)) s ''unknown''))
        (filter (fails (load_alternate_skills E) (lemmatize_text_for_matching E resume))
           (goal_skill_names E goals_map g)))"
    unfolding f by (rule match_skills_eq)
  have 8: "set (goal_skill_names E goals_map g) = name ` set (dict_get goals_map g [])"
    by (simp add: goal_names_set goal_dict_keys)
  have 9: "distinct (goal_skill_names E goals_map g)"
    by (rule goal_names_distinct)
  have 10: "\<forall>p\<in>set (snd (match_skills E goals_map g resume)).
      map_of (goal_skills_with_importance goals_map g) (fst p) = Some (snd p) \<and>
      (\<exists>item\<in>set (dict_get goals_map g []). name item = fst p \<and> importance item = snd p)"
  proof
    fix p assume "p \<in> set (snd (match_skills E goals_map g resume))"
    then have m: "map_of (goal_skills_with_importance goals_map g) (fst p) = Some (snd p)"
      by (rule missing_importance)
    then have "(fst p, snd p) \<in> set (goal_skills_with_importance goals_map g)"
      by (rule map_of_SomeD)
    then have "\<exists>item\<in>set (dict_get goals_map g []). name item = fst p \<and> importance item = snd p"
      by (rule goal_dict_entry)
    with m show "map_of (goal_skills_with_importance goals_map g) (fst p) = Some (snd p) \<and>
      (\<exists>item\<in>set (dict_get goals_map g []). name item = fst p \<and> importance item = snd p)" ..
  qed
  have 11: "matched_skills r =
        sort (filter (\<lambda>s. \<not> fails (load_alternate_skills E) (lemmatize_text_for_matching E resume) s)
                (goal_skill_names E goals_map g)) \<and>
      missing_skills r =
        sort (capped_missing_skills_names
                (case max_missing_skills cfg of None \<Rightarrow> 15 | Some m \<Rightarrow> m)
                (map (\<lambda>s. (s, dict_get (map_of (goal_skills_with_importance goals_map g)) s ''unknown''))
                   (filter (fails (load_alternate_skills E) (lemmatize_text_for_matching E resume))
                      (goal_skill_names E goals_map g))))"
    if a: "score_resume E sid g resume cfg goals_map suggestion_map skill_groups = (evs, Inr r)"
  proof -
    from a obtain model vectorizer minimum where "strip resume \<noteq> []" "load_model E g = Inr model"
      "load_vectorizer E g = Inr vectorizer" "minimum_score_to_pass cfg = Some minimum"
      by (rule score_resume_Inr)
    from score_resume_ok [OF this, of sid goals_map suggestion_map skill_groups] a
    have "matched_skills r = sort (fst (match_skills E goals_map g resume))"
      "missing_skills r = sort (capped_missing_skills_names
         (case max_missing_skills cfg of None \<Rightarrow> 15 | Some m \<Rightarrow> m)
         (snd (match_skills E goals_map g resume)))"
      by auto
    then show ?thesis by (simp add: 7)
  qed
  from 1 2 3 4 5 6 7 8 9 10 11 show ?thesis by blast
qed

theorem resolve_skill_order_witness:
  "resolve_skill example_env (load_alternate_skills example_env)
      [(''z'', ''core''), (''a'', ''nice_to_have''), (''s'', ''important'')] ''r'' ''s'' =
     Matched_alternate ''r'' \<and>
   match_loop example_env (load_alternate_skills example_env)
      [(''z'', ''core''), (''a'', ''nice_to_have''), (''s'', ''important'')] ''r''
      [''z'', ''a'', ''s''] ([], []) =
     ([''s''], [(''z'', ''core''), (''a'', ''nice_to_have'')]) \<and>
   match_skills example_env example_goals ''G'' ''r'' =
     ([''s''], [(''z'', ''core''), (''a'', ''nice_to_have'')]) \<and>
   (\<exists>r. score_resume example_env ''id'' ''G'' ''r'' example_config example_goals Map.empty Map.empty =
          ([Load_model ''G'', Load_vectorizer ''G'', Load_alternate_skills], Inr r) \<and>
        matched_skills r = [''s''] \<and> missing_skills r = [''z''])"
proof -
  have "strip ''r'' \<noteq> []" "load_model example_env ''G'' = Inr 0"
    "load_vectorizer example_env ''G'' = Inr 1"
    "minimum_score_to_pass example_config = Some (1 / 2)"
    by (simp_all add: example_text example_loads example_config_def)
  from score_resume_ok [OF this, of "''id''" example_goals Map.empty Map.empty]
  obtain r where r: "score_resume example_env ''id'' ''G'' ''r'' example_config example_goals
      Map.empty Map.empty = ([Load_model ''G'', Load_vectorizer ''G'', Load_alternate_skills], Inr r)"
    by blast
  have ex: "\<exists>i<length [''d'', ''r''].
      [''d'', ''r''] ! i = ''r'' \<and> phrase_in_lemmatized_text example_env ''r'' ''r'' 70 \<and>
      (\<forall>j<i. \<not> phrase_in_lemmatized_text example_env ([''d'', ''r''] ! j) ''r'' 70)"
    by (rule exI [of _ 1]) (simp add: example_phrases)
  have cap: "(case max_missing_skills example_config of None \<Rightarrow> 15 | Some m \<Rightarrow> m) = 1"
    by (simp add: example_config_def)
  have srt: "capped_missing_skills_names 1 [(''z'', ''core''), (''a'', ''nice_to_have'')] = [''z'']"
    by (simp add: capped_missing_skills_names_def sorted_missing_skills_def slice_to_def
        dict_get_def importance_order_def)
  note t = resolve_skill_order [where E = example_env and am = "load_alternate_skills example_env"
      and gswi = "[(''z'', ''core''), (''a'', ''nice_to_have''), (''s'', ''important'')]"
      and ltext = "''r''" and s = "''s''" and a = "''r''" and imp = "''core''"
      and names = "[''z'', ''a'', ''s'']" and acc = "([], [])" and goals_map = example_goals
      and g = "''G''" and resume = "''r''" and sid = "''id''" and cfg = example_config
      and suggestion_map = Map.empty and skill_groups = Map.empty
      and evs = "[Load_model ''G'', Load_vectorizer ''G'', Load_alternate_skills]" and r = r]
  from t r ex have
    "resolve_skill example_env (load_alternate_skills example_env)
      [(''z'', ''core''), (''a'', ''nice_to_have''), (''s'', ''important'')] ''r'' ''s'' =
     Matched_alternate ''r''"
    "match_loop example_env (load_alternate_skills example_env)
      [(''z'', ''core''), (''a'', ''nice_to_have''), (''s'', ''important'')] ''r''
      [''z'', ''a'', ''s''] ([], []) =
     ([''s''], [(''z'', ''core''), (''a'', ''nice_to_have'')])"
    "match_skills example_env example_goals ''G'' ''r'' =
     ([''s''], [(''z'', ''core''), (''a'', ''nice_to_have'')])"
    "matched_skills r = [''s'']" "missing_skills r = [''z'']"
    by (simp_all add: example_loads example_phrases example_text example_goal_names
        example_goals_dict dict_get_def cap srt conj_disj_distribR ex_disj_distrib)
  with r show ?thesis by blast
qed

subsection \<open>The final score\<close>

lemma dict_store_fresh: "k \<notin> fst ` set d \<Longrightarrow> dict_store k v d = d @ [(k, v)]"
  by (induction d) auto

lemma dict_fold_fresh:
  "distinct (map fst ps) \<Longrightarrow> fst ` set ps \<inter> fst ` set d = {} \<Longrightarrow>
   fold (\<lambda>p d. dict_store (fst p) (snd p) d) ps d = d @ ps"
proof (induction ps arbitrary: d)
  case Nil
  then show ?case by simp
next
  case (Cons p ps)
  from Cons.prems have fresh: "fst p \<notin> fst ` set d" by auto
  from Cons.prems have "distinct (map fst ps)"
    and "fst ` set ps \<inter> fst ` set (d @ [p]) = {}" by auto
  from Cons.IH [OF this] fresh show ?case by (simp add: dict_store_fresh)
qed

lemma dict_of_distinct_id: "distinct (map fst ps) \<Longrightarrow> dict_of ps = ps"
  using dict_fold_fresh [of ps "[]"] by (simp add: dict_of_def)

lemma goal_dict_distinct_id:
  assumes "distinct (map name (dict_get goals_map g []))"
  shows "goal_skills_with_importance goals_map g =
         map (\<lambda>item. (name item, importance item)) (dict_get goals_map g [])"
  unfolding goal_skills_with_importance_def
  by (rule dict_of_distinct_id) (simp add: assms comp_def)

lemma sum_list_same_set:
  fixes f :: "'a \<Rightarrow> int"
  assumes "distinct xs" and "distinct ys" and "set xs = set ys"
  shows "sum_list (map f xs) = sum_list (map f ys)"
  using assms by (simp add: sum_list_distinct_conv_sum_set)

lemma spec_weight_table: "dict_get importance_weights imp 0 = spec_weight imp"
  by (simp add: dict_get_def importance_weights_def spec_weight_def)

lemma skill_points_entry:
  assumes "distinct (map fst gswi)" and "q \<in> set gswi"
  shows "skill_points gswi (fst q) = spec_weight (snd q)"
proof -
  from assms have "map_of gswi (fst q) = Some (snd q)" by simp
  then show ?thesis by (simp add: skill_points_def dict_get_def [of "map_of gswi"] spec_weight_table)
qed

lemma sum_skill_points_keys:
  assumes "distinct (map fst gswi)"
  shows "sum_skill_points gswi (filter P (map fst gswi)) =
         (\<Sum>q\<leftarrow>filter (\<lambda>q. P (fst q)) gswi. spec_weight (snd q))"
proof -
  have "sum_skill_points gswi (filter P (map fst gswi)) =
        (\<Sum>q\<leftarrow>filter (\<lambda>q. P (fst q)) gswi. skill_points gswi (fst q))"
    by (simp add: sum_skill_points_def filter_map comp_def)
  also have "\<dots> = (\<Sum>q\<leftarrow>filter (\<lambda>q. P (fst q)) gswi. spec_weight (snd q))"
    by (rule arg_cong [where f = sum_list], rule map_cong)
       (simp_all add: skill_points_entry [OF assms])
  finally show ?thesis .
qed

lemma sum_skill_points_subset:
  assumes "distinct (map fst gswi)" and "distinct xs" and "set xs \<subseteq> fst ` set gswi"
  shows "sum_skill_points gswi xs =
         (\<Sum>q\<leftarrow>filter (\<lambda>q. fst q \<in> set xs) gswi. spec_weight (snd q))"
proof -
  have "sum_skill_points gswi xs = sum_skill_points gswi (filter (\<lambda>s. s \<in> set xs) (map fst gswi))"
    unfolding sum_skill_points_def
    by (rule sum_list_same_set) (use assms in auto)
  then show ?thesis by (simp add: sum_skill_points_keys [OF assms(1)])
qed

lemma spec_weight_nonneg: "0 \<le> spec_weight imp"
  by (simp add: spec_weight_def)

lemma skill_score_spec:
  "skill_score_of
     (sum_skill_points (goal_skills_with_importance goals_map g)
        (fst (match_skills E goals_map g resume)))
     (sum_skill_points (goal_skills_with_importance goals_map g) (goal_skill_names E goals_map g)) =
   spec_skill_score (set (fst (match_skills E goals_map g resume)))
     (goal_skills_with_importance goals_map g)"
proof -
  let ?d = "goal_skills_with_importance goals_map g"
  let ?names = "goal_skill_names E goals_map g"
  let ?matched = "fst (match_skills E goals_map g resume)"
  have d: "distinct (map fst ?d)" by (rule goal_dict_distinct)
  have "sum_skill_points ?d ?names =
        (\<Sum>q\<leftarrow>filter (\<lambda>q. fst q \<in> set ?names) ?d. spec_weight (snd q))"
    by (rule sum_skill_points_subset [OF d goal_names_distinct]) (simp add: goal_names_set)
  also have "filter (\<lambda>q. fst q \<in> set ?names) ?d = ?d"
    by (simp add: goal_names_set)
  finally have total: "sum_skill_points ?d ?names = (\<Sum>q\<leftarrow>?d. spec_weight (snd q))" .
  have "distinct ?matched" "set ?matched \<subseteq> fst ` set ?d"
    using goal_names_distinct [of E goals_map g] goal_names_set [of E goals_map g]
    by (auto simp: match_skills_eq)
  then have got: "sum_skill_points ?d ?matched =
        (\<Sum>q\<leftarrow>filter (\<lambda>q. fst q \<in> set ?matched) ?d. spec_weight (snd q))"
    by (rule sum_skill_points_subset [OF d])
  have "0 \<le> (\<Sum>q\<leftarrow>?d. spec_weight (snd q))"
    by (rule sum_list_nonneg) (auto simp: spec_weight_nonneg)
  then show ?thesis
    unfolding total got skill_score_of_def spec_skill_score_def Let_def by auto
qed

text \<open>
  Claim C1. A scoring call with a text that is not blank, for a goal whose model and
  vectorizer are there and a configuration that gives \<open>minimum_score_to_pass\<close>, returns a
  result. Its score is 0.6 times the probability of the model plus 0.4 times the skill
  score, the sum of the weights (core 3, important 2, nice to have 1) of the matched
  requirements over the sum of the weights of all requirements of the goal, and 0 when
  the goal has no requirement; and \<open>is_pass\<close> holds exactly when the score is at least
  the configured minimum. The requirements are the entries of the dictionary the call
  builds from the goal's list, which is that list itself when no name occurs twice in it.
  For a supported goal the endpoint returns the same result. (Python's floats are
  read as real numbers.)
\<close>

theorem final_score_formula:
  assumes "\<not> list_all is_space resume"
    and "load_model E g = Inr model" and "load_vectorizer E g = Inr vectorizer"
    and "minimum_score_to_pass cfg = Some minimum"
  shows "\<exists>r. score_resume E sid g resume cfg goals_map suggestion_map skill_groups =
              ([Load_model g, Load_vectorizer g, Load_alternate_skills], Inr r) \<and>
             score r = 0.6 * positive_probability E model vectorizer resume +
                       0.4 * spec_skill_score (set (matched_skills r))
                               (goal_skills_with_importance goals_map g) \<and>
             is_pass r = (score r \<ge> minimum) \<and>
             (distinct (map name (dict_get goals_map g [])) \<longrightarrow>
                goal_skills_with_importance goals_map g =
                  map (\<lambda>item. (name item, importance item)) (dict_get goals_map g [])) \<and>
             (g \<in> set (model_goals_supported cfg) \<longrightarrow>
                post_score E cfg goals_map suggestion_map skill_groups
                    \<lparr>student_id = sid, goal = g, resume_text = resume\<rparr> =
                  ([Load_model g, Load_vectorizer g, Load_alternate_skills], Inr r))"
proof -
  from assms(1) have ne: "strip resume \<noteq> []" by (simp add: strip_empty_iff)
  note ok = score_resume_ok [OF ne assms(2-4), of sid goals_map suggestion_map skill_groups]
  have "\<exists>r. score_resume E sid g resume cfg goals_map suggestion_map skill_groups =
              ([Load_model g, Load_vectorizer g, Load_alternate_skills], Inr r) \<and>
      score r = final_score_of (positive_probability E model vectorizer resume)
                  (skill_score_of
                     (sum_skill_points (goal_skills_with_importance goals_map g)
                        (fst (match_skills E goals_map g resume)))
                     (sum_skill_points (goal_skills_with_importance goals_map g)
                        (goal_skill_names E goals_map g))) \<and>
      is_pass r = (score r \<ge> minimum) \<and>
      matched_skills r = sort (fst (match_skills E goals_map g resume))"
    unfolding ok by simp
  then obtain r where r: "score_resume E sid g resume cfg goals_map suggestion_map skill_groups =
              ([Load_model g, Load_vectorizer g, Load_alternate_skills], Inr r)"
    and s: "score r = final_score_of (positive_probability E model vectorizer resume)
                  (skill_score_of
                     (sum_skill_points (goal_skills_with_importance goals_map g)
                        (fst (match_skills E goals_map g resume)))
                     (sum_skill_points (goal_skills_with_importance goals_map g)
                        (goal_skill_names E goals_map g)))"
    and p: "is_pass r = (score r \<ge> minimum)"
    and m: "matched_skills r = sort (fst (match_skills E goals_map g resume))"
    by blast
  have 1: "score r = 0.6 * positive_probability E model vectorizer resume +
                       0.4 * spec_skill_score (set (matched_skills r))
                               (goal_skills_with_importance goals_map g)"
    by (simp add: s m skill_score_spec final_score_of_def model_weight_def skill_weight_def)
  have 2: "distinct (map name (dict_get goals_map g [])) \<longrightarrow>
                goal_skills_with_importance goals_map g =
                  map (\<lambda>item. (name item, importance item)) (dict_get goals_map g [])"
    by (simp add: goal_dict_distinct_id)
  have 3: "g \<in> set (model_goals_supported cfg) \<longrightarrow>
                post_score E cfg goals_map suggestion_map skill_groups
                    \<lparr>student_id = sid, goal = g, resume_text = resume\<rparr> =
                  ([Load_model g, Load_vectorizer g, Load_alternate_skills], Inr r)"
    by (simp add: post_score_def ne r)
  from r 1 p 2 3 show ?thesis by blast
qed

theorem final_score_formula_witness:
  "\<not> list_all is_space ''r'' \<and> load_model example_env ''G'' = Inr 0 \<and>
   load_vectorizer example_env ''G'' = Inr 1 \<and>
   minimum_score_to_pass example_config = Some (1 / 2) \<and>
   (\<exists>r. score_resume example_env ''id'' ''G'' ''r'' example_config example_goals Map.empty Map.empty =
          ([Load_model ''G'', Load_vectorizer ''G'', Load_alternate_skills], Inr r) \<and>
        matched_skills r = [''s''] \<and>
        score r = 0.6 * (1 / 2) + 0.4 * (2 / 6) \<and> \<not> is_pass r \<and>
        post_score example_env example_config example_goals Map.empty Map.empty
            \<lparr>student_id = ''id'', goal = ''G'', resume_text = ''r''\<rparr> =
          ([Load_model ''G'', Load_vectorizer ''G'', Load_alternate_skills], Inr r))"
proof -
  have h: "\<not> list_all is_space ''r''" "load_model example_env ''G'' = Inr 0"
    "load_vectorizer example_env ''G'' = Inr 1"
    "minimum_score_to_pass example_config = Some (1 / 2)"
    by (simp_all add: is_space_letters example_loads example_config_def)
  from final_score_formula [OF h, of "''id''" example_goals Map.empty Map.empty]
  obtain r where r: "score_resume example_env ''id'' ''G'' ''r'' example_config example_goals
        Map.empty Map.empty = ([Load_model ''G'', Load_vectorizer ''G'', Load_alternate_skills], Inr r)"
    and s: "score r = 0.6 * positive_probability example_env 0 1 ''r'' +
                      0.4 * spec_skill_score (set (matched_skills r))
                              (goal_skills_with_importance example_goals ''G'')"
    and p: "is_pass r = (score r \<ge> 1 / 2)"
    and e: "''G'' \<in> set (model_goals_supported example_config) \<longrightarrow>
            post_score example_env example_config example_goals Map.empty Map.empty
              \<lparr>student_id = ''id'', goal = ''G'', resume_text = ''r''\<rparr> =
            ([Load_model ''G'', Load_vectorizer ''G'', Load_alternate_skills], Inr r)"
    by blast
  have "strip ''r'' \<noteq> []" by (simp add: example_text)
  from score_resume_ok [OF this h(2-4), of "''id''" example_goals Map.empty Map.empty] r
  have m: "matched_skills r = [''s'']"
    by (auto simp: example_match_skills)
  have prob: "positive_probability example_env m v t = 1 / 2" for m v t
    by (simp add: example_env_def)
  have ss: "spec_skill_score {''s''} (goal_skills_with_importance example_goals ''G'') = 2 / 6"
    by (simp add: example_goals_dict spec_skill_score_def spec_weight_def)
  have sc: "score r = 0.6 * (1 / 2) + 0.4 * (2 / 6)"
    using s by (simp add: m prob ss)
  from p sc have np: "\<not> is_pass r" by simp
  from e have po: "post_score example_env example_config example_goals Map.empty Map.empty
              \<lparr>student_id = ''id'', goal = ''G'', resume_text = ''r''\<rparr> =
            ([Load_model ''G'', Load_vectorizer ''G'', Load_alternate_skills], Inr r)"
    by (simp add: example_config_def)
  from h r m sc np po show ?thesis by blast
qed

subsection \<open>Fields of the result\<close>

lemma slice_to_take: "\<exists>k. slice_to xs c = take k xs"
  by (auto simp: slice_to_def)

lemma slice_to_nonneg: "0 \<le> c \<Longrightarrow> slice_to xs c = take (nat c) xs"
  by (simp add: slice_to_def)

lemma sorted_missing_skills_sorted:
  "sorted (map (\<lambda>x. (dict_get importance_order (snd x) 99, fst x)) (sorted_missing_skills all))"
  "set (sorted_missing_skills all) = set all"
  "length (sorted_missing_skills all) = length all"
  by (simp_all add: sorted_missing_skills_def)

lemma missing_names_distinct: "distinct (map fst (snd (match_skills E goals_map g resume)))"
  by (simp add: match_skills_eq comp_def goal_names_distinct)

lemma missing_names:
  "map fst (snd (match_skills E goals_map g resume)) =
     filter (all_attempts_fail E (load_alternate_skills E) (lemmatize_text_for_matching E resume))
       (goal_skill_names E goals_map g)"
  by (simp add: match_skills_eq comp_def)

lemma matched_missing_partition:
  "set (fst (match_skills E goals_map g resume)) \<union>
     set (map fst (snd (match_skills E goals_map g resume))) = set (goal_skill_names E goals_map g)"
  "set (fst (match_skills E goals_map g resume)) \<inter>
     set (map fst (snd (match_skills E goals_map g resume))) = {}"
  unfolding missing_names by (auto simp: match_skills_eq)

lemma score_resume_fields:
  assumes "score_resume E sid g resume cfg goals_map suggestion_map skill_groups = (evs, Inr r)"
  shows "matched_skills r = sort (fst (match_skills E goals_map g resume))"
    and "missing_skills r = sort (capped_missing_skills_names
           (case max_missing_skills cfg of None \<Rightarrow> 15 | Some m \<Rightarrow> m)
           (snd (match_skills E goals_map g resume)))"
    and "suggested_learning_path r = suggestions_for suggestion_map
           (capped_missing_skills_names
              (case max_missing_skills cfg of None \<Rightarrow> 15 | Some m \<Rightarrow> m)
              (snd (match_skills E goals_map g resume)))"
    and "missing_skills_grouped r =
           group_loop (hash_order E) (dict_get goals_map g [])
             (fst (match_skills E goals_map g resume)) (snd (match_skills E goals_map g resume))
             (dict_get skill_groups g []) Map.empty"
    and "evs = [Load_model g, Load_vectorizer g, Load_alternate_skills]"
proof -
  from assms obtain model vectorizer minimum where "strip resume \<noteq> []" "load_model E g = Inr model"
    "load_vectorizer E g = Inr vectorizer" "minimum_score_to_pass cfg = Some minimum"
    by (rule score_resume_Inr)
  note ok = score_resume_ok [OF this, of sid goals_map suggestion_map skill_groups]
  from ok assms show "matched_skills r = sort (fst (match_skills E goals_map g resume))" by auto
  from ok assms show "missing_skills r = sort (capped_missing_skills_names
           (case max_missing_skills cfg of None \<Rightarrow> 15 | Some m \<Rightarrow> m)
           (snd (match_skills E goals_map g resume)))" by auto
  from ok assms show "suggested_learning_path r = suggestions_for suggestion_map
           (capped_missing_skills_names
              (case max_missing_skills cfg of None \<Rightarrow> 15 | Some m \<Rightarrow> m)
              (snd (match_skills E goals_map g resume)))" by auto
  from ok assms show "missing_skills_grouped r =
           group_loop (hash_order E) (dict_get goals_map g [])
             (fst (match_skills E goals_map g resume)) (snd (match_skills E goals_map g resume))
             (dict_get skill_groups g []) Map.empty" by auto
  from ok assms show "evs = [Load_model g, Load_vectorizer g, Load_alternate_skills]" by auto
qed

lemma take_sorted_priority:
  assumes "sorted (map f xs)" and "distinct (map h xs)"
    and "x \<in> set xs" and "y \<in> set xs"
    and "h x \<in> set (take k (map h xs))" and "h y \<notin> set (take k (map h xs))"
  shows "f x \<le> f y"
proof -
  have split: "xs = take k xs @ drop k xs" by simp
  have d: "distinct (map h (take k xs) @ map h (drop k xs))"
    using assms(2) by (simp flip: map_append)
  from assms(6) have "y \<notin> set (take k xs)" by (auto simp: take_map)
  with assms(4) have y: "y \<in> set (drop k xs)"
    by (metis Un_iff set_append split)
  have "x \<in> set (take k xs)"
  proof (rule ccontr)
    assume "x \<notin> set (take k xs)"
    with assms(3) have "x \<in> set (drop k xs)" by (metis Un_iff set_append split)
    then have "h x \<in> set (map h (drop k xs))" by simp
    moreover from assms(5) have "h x \<in> set (map h (take k xs))" by (simp add: take_map)
    ultimately show False using d by auto
  qed
  moreover have "sorted (map f (take k xs) @ map f (drop k xs))"
    using assms(1) by (simp flip: map_append)
  ultimately show ?thesis using y by (auto simp: sorted_append)
qed

lemma example_wide:
  "capped_missing_skills_names 2 [(''z'', ''core''), (''a'', ''nice_to_have'')] = [''z'', ''a'']"
  "capped_missing_skills_names (- 1) [(''z'', ''core''), (''a'', ''nice_to_have'')] = [''z'']"
  "sort [''z'', ''a''] = [''a'', ''z'']"
  by (simp_all add: capped_missing_skills_names_def sorted_missing_skills_def slice_to_def
      dict_get_def importance_order_def)

lemma importance_order_ranks:
  "dict_get importance_order ''core'' 99 = 1" "dict_get importance_order ''important'' 99 = 2"
  "dict_get importance_order ''nice_to_have'' 99 = 3"
  "imp \<notin> {''core'', ''important'', ''nice_to_have''} \<Longrightarrow> dict_get importance_order imp 99 = 99"
  by (simp_all add: dict_get_def importance_order_def)

lemma example_call:
  assumes "minimum_score_to_pass cfg = Some minimum"
  shows "\<exists>r. score_resume example_env sid ''G'' ''r'' cfg example_goals suggestion_map skill_groups =
              ([Load_model ''G'', Load_vectorizer ''G'', Load_alternate_skills], Inr r)"
  using score_resume_ok [OF example_text(2) example_loads(1,2) assms] by blast

subsection \<open>The returned missing skills\<close>

text \<open>
  Claim C5 says that the returned \<open>missing_skills\<close> list is sorted by importance rank
  first and that its length never exceeds the configured cap. It is not: the call returns
  the capped names sorted alphabetically, so with \<open>z\<close> (core) and \<open>a\<close> (nice to have) both
  missing it returns \<open>a\<close> before \<open>z\<close>, rank 3 before rank 1. And a negative cap is the
  end of a Python slice: with the cap -1 the list has one name.
\<close>

theorem missing_skills_order_counterexample:
  "map_sum id missing_skills
     (snd (score_resume example_env ''id'' ''G'' ''r'' (example_config\<lparr>max_missing_skills := Some 2\<rparr>)
             example_goals Map.empty Map.empty)) = Inr [''a'', ''z''] \<and>
   map_of (goal_skills_with_importance example_goals ''G'') ''a'' = Some ''nice_to_have'' \<and>
   map_of (goal_skills_with_importance example_goals ''G'') ''z'' = Some ''core'' \<and>
   dict_get importance_order ''core'' 99 < dict_get importance_order ''nice_to_have'' 99 \<and>
   map_sum id missing_skills
     (snd (score_resume example_env ''id'' ''G'' ''r'' (example_config\<lparr>max_missing_skills := Some (- 1)\<rparr>)
             example_goals Map.empty Map.empty)) = Inr [''z'']"
proof -
  have m: "minimum_score_to_pass (example_config\<lparr>max_missing_skills := c\<rparr>) = Some (1 / 2)" for c
    by (simp add: example_config_def)
  note ok = score_resume_ok [OF example_text(2) example_loads(1,2) m,
      of "''id''" _ example_goals Map.empty Map.empty]
  show ?thesis
    by (simp add: ok example_match_skills example_wide example_goals_dict importance_order_ranks)
qed

text \<open>
  Claim C5, amended. The returned \<open>missing_skills\<close> list is sorted alphabetically and
  without repetition. Its names are the first names of the missing requirements ranked by
  importance (core 1, important 2, nice to have 3, any other importance 99) and then by
  name, up to the cap: a missing skill that is returned never ranks after one that is left
  out. With a cap that is not negative the list has the cap's length, or that of the whole
  missing list when that is shorter, so its length does not exceed the cap.
\<close>

theorem missing_skills_order:
  fixes E :: "'obj env"
  assumes "score_resume E sid g resume cfg goals_map suggestion_map skill_groups = (evs, Inr r)"
  defines "cap \<equiv> (case max_missing_skills cfg of None \<Rightarrow> 15 | Some m \<Rightarrow> m)"
  defines "rank \<equiv> \<lambda>x. (dict_get importance_order (snd x) 99, fst x)"
  defines "all_missing \<equiv> snd (match_skills E goals_map g resume)"
  shows "sorted (missing_skills r) \<and> distinct (missing_skills r) \<and>
     set (missing_skills r) \<subseteq> fst ` set all_missing \<and>
     (\<forall>x\<in>set all_missing. \<forall>y\<in>set all_missing.
        fst x \<in> set (missing_skills r) \<and> fst y \<notin> set (missing_skills r) \<longrightarrow> rank x \<le> rank y) \<and>
     (\<exists>ranked. set ranked = set all_missing \<and> length ranked = length all_missing \<and>
        sorted (map rank ranked) \<and> missing_skills r = sort (slice_to (map fst ranked) cap)) \<and>
     (0 \<le> cap \<longrightarrow> length (missing_skills r) = min (nat cap) (length all_missing)) \<and>
     (0 \<le> cap \<longrightarrow> int (length (missing_skills r)) \<le> cap) \<and>
     dict_get importance_order ''core'' 99 = 1 \<and> dict_get importance_order ''important'' 99 = 2 \<and>
     dict_get importance_order ''nice_to_have'' 99 = 3 \<and>
     (imp \<notin> {''core'', ''important'', ''nice_to_have''} \<longrightarrow> dict_get importance_order imp 99 = 99)"
proof -
  let ?ranked = "sorted_missing_skills all_missing"
  have ms: "missing_skills r = sort (slice_to (map fst ?ranked) cap)"
    using score_resume_fields(2) [OF assms(1)]
    by (simp add: cap_def all_missing_def capped_missing_skills_names_def)
  obtain k where k: "slice_to (map fst ?ranked) cap = take k (map fst ?ranked)"
    using slice_to_take by blast
  have sr: "sorted (map rank ?ranked)" "set ?ranked = set all_missing"
    "length ?ranked = length all_missing"
    unfolding rank_def by (rule sorted_missing_skills_sorted)+
  have "distinct (map fst all_missing)"
    unfolding all_missing_def by (rule missing_names_distinct)
  then have dr: "distinct (map fst ?ranked)"
    by (simp add: sorted_missing_skills_def distinct_map)
  have 1: "sorted (missing_skills r)" by (simp add: ms)
  have 2: "distinct (missing_skills r)" using dr by (simp add: ms k)
  have 3: "set (missing_skills r) \<subseteq> fst ` set all_missing"
    using set_take_subset [of k "map fst ?ranked"] by (simp add: ms k sr(2))
  have 4: "\<forall>x\<in>set all_missing. \<forall>y\<in>set all_missing.
        fst x \<in> set (missing_skills r) \<and> fst y \<notin> set (missing_skills r) \<longrightarrow> rank x \<le> rank y"
  proof (intro ballI impI)
    fix x y
    assume "x \<in> set all_missing" "y \<in> set all_missing"
      and "fst x \<in> set (missing_skills r) \<and> fst y \<notin> set (missing_skills r)"
    then have "x \<in> set ?ranked" "y \<in> set ?ranked"
      "fst x \<in> set (take k (map fst ?ranked))" "fst y \<notin> set (take k (map fst ?ranked))"
      by (simp_all add: sr(2) ms k)
    with sr(1) dr show "rank x \<le> rank y" by (rule take_sorted_priority)
  qed
  have 5: "\<exists>ranked. set ranked = set all_missing \<and> length ranked = length all_missing \<and>
        sorted (map rank ranked) \<and> missing_skills r = sort (slice_to (map fst ranked) cap)"
    using sr ms by blast
  have 6: "0 \<le> cap \<longrightarrow> length (missing_skills r) = min (nat cap) (length all_missing)"
    by (simp add: ms slice_to_nonneg sr(3) min.commute)
  then have 7: "0 \<le> cap \<longrightarrow> int (length (missing_skills r)) \<le> cap"
    by auto
  note 8 = importance_order_ranks
  from 1 2 3 4 5 6 7 8 show ?thesis by blast
qed

theorem missing_skills_order_witness:
  "\<exists>r. score_resume example_env ''id'' ''G'' ''r'' (example_config\<lparr>max_missing_skills := Some 2\<rparr>)
          example_goals Map.empty Map.empty =
          ([Load_model ''G'', Load_vectorizer ''G'', Load_alternate_skills], Inr r) \<and>
        missing_skills r = [''a'', ''z''] \<and> sorted (missing_skills r) \<and>
        int (length (missing_skills r)) \<le> 2"
proof -
  have "minimum_score_to_pass (example_config\<lparr>max_missing_skills := Some 2\<rparr>) = Some (1 / 2)"
    by (simp add: example_config_def)
  from example_call [OF this, of "''id''" Map.empty Map.empty]
  obtain r where r: "score_resume example_env ''id'' ''G'' ''r''
      (example_config\<lparr>max_missing_skills := Some 2\<rparr>) example_goals Map.empty Map.empty =
      ([Load_model ''G'', Load_vectorizer ''G'', Load_alternate_skills], Inr r)"
    by blast
  from missing_skills_order [OF r, of "''critical''"]
  have "sorted (missing_skills r)" "int (length (missing_skills r)) \<le> 2"
    by simp_all
  moreover from score_resume_fields(2) [OF r] have "missing_skills r = [''a'', ''z'']"
    by (simp add: example_match_skills example_wide)
  ultimately show ?thesis using r by blast
qed

subsection \<open>The suggestions\<close>





subsection \<open>The loop over the reporting groups\<close>

lemma sort_eq_Nil: "sort xs = [] \<longleftrightarrow> xs = []"
  by (metis length_0_conv length_sort)

lemma group_entry_Some:
  assumes "group_entry h items matched all_missing skills_in_group = Some l"
  shows "set l \<subseteq> name ` set items \<inter> set skills_in_group - set matched"
    and "l \<noteq> []"
proof -
  let ?gsn = "set_iter h (map name (filter (\<lambda>item. name item \<in> set skills_in_group) items))"
  have gsn: "set ?gsn = name ` set items \<inter> set skills_in_group"
    by (auto simp: set_iter_set)
  show "set l \<subseteq> name ` set items \<inter> set skills_in_group - set matched"
  proof (cases "filter (\<lambda>s. s \<in> set ?gsn) matched = []")
    case True
    then have none: "\<forall>s\<in>set matched. s \<notin> set ?gsn"
      by (simp add: filter_empty_conv)
    from assms True have "l = sort (filter (\<lambda>n. n \<in> set ?gsn) (map fst all_missing))"
      by (simp add: group_entry_def Let_def split: if_splits)
    then have "set l \<subseteq> set ?gsn" by auto
    with none show ?thesis unfolding gsn by blast
  next
    case False
    with assms have "l = sort (filter (\<lambda>s. s \<notin> set matched) ?gsn)"
      by (simp add: group_entry_def Let_def split: if_splits)
    then have "set l \<subseteq> set ?gsn - set matched" by auto
    then show ?thesis unfolding gsn .
  qed
  from assms show "l \<noteq> []"
    by (auto simp: group_entry_def Let_def sort_eq_Nil split: if_splits)
qed

lemma group_entry_covers:
  assumes "s \<in> name ` set items" and "s \<in> set skills_in_group" and "s \<notin> set matched"
    and "s \<in> fst ` set all_missing"
  shows "\<exists>l. group_entry h items matched all_missing skills_in_group = Some l \<and> s \<in> set l"
proof -
  let ?gsn = "set_iter h (map name (filter (\<lambda>item. name item \<in> set skills_in_group) items))"
  from assms(1,2) have in_gsn: "s \<in> set ?gsn"
    by (auto simp: set_iter_set)
  show ?thesis
  proof (cases "filter (\<lambda>s. s \<in> set ?gsn) matched = []")
    case True
    from in_gsn assms(4) have m: "s \<in> set (filter (\<lambda>n. n \<in> set ?gsn) (map fst all_missing))"
      by simp
    then have "filter (\<lambda>n. n \<in> set ?gsn) (map fst all_missing) \<noteq> []"
      by (metis empty_iff empty_set)
    with True have "group_entry h items matched all_missing skills_in_group =
        Some (sort (filter (\<lambda>n. n \<in> set ?gsn) (map fst all_missing)))"
      by (simp add: group_entry_def Let_def)
    with m show ?thesis by simp
  next
    case False
    from in_gsn assms(3) have m: "s \<in> set (filter (\<lambda>s. s \<notin> set matched) ?gsn)"
      by simp
    then have "filter (\<lambda>s. s \<notin> set matched) ?gsn \<noteq> []"
      by (metis empty_iff empty_set)
    with False have "group_entry h items matched all_missing skills_in_group =
        Some (sort (filter (\<lambda>s. s \<notin> set matched) ?gsn))"
      by (simp add: group_entry_def Let_def sort_eq_Nil)
    with m show ?thesis by simp
  qed
qed

lemma group_loop_Some:
  assumes "group_loop h items matched all_missing groups mg k = Some l"
  shows "mg k = Some l \<or>
         (\<exists>grp\<in>set groups. fst grp = k \<and>
            group_entry h items matched all_missing (snd grp) = Some l)"
  using assms
proof (induction groups arbitrary: mg)
  case Nil
  then show ?case by simp
next
  case (Cons grp groups)
  let ?mg = "case group_entry h items matched all_missing (snd grp) of
               None \<Rightarrow> mg | Some skills \<Rightarrow> mg(fst grp \<mapsto> skills)"
  from Cons.prems have "group_loop h items matched all_missing groups ?mg k = Some l"
    by simp
  from Cons.IH [OF this] show ?case
    by (auto split: option.splits if_splits)
qed

lemma group_loop_lookup:
  assumes "distinct (map fst groups)"
  shows "group_loop h items matched all_missing groups mg k =
         (case map_of groups k of
            None \<Rightarrow> mg k
          | Some skills_in_group \<Rightarrow>
              (case group_entry h items matched all_missing skills_in_group of
                 None \<Rightarrow> mg k | Some l \<Rightarrow> Some l))"
  using assms
proof (induction groups arbitrary: mg k)
  case Nil
  then show ?case by simp
next
  case (Cons grp groups)
  from Cons.prems have d: "distinct (map fst groups)" and fresh: "fst grp \<notin> fst ` set groups"
    by auto
  from fresh have none: "map_of groups (fst grp) = None"
    by (simp add: map_of_eq_None_iff)
  show ?case
  proof (cases "k = fst grp")
    case True
    with none show ?thesis
      by (cases grp) (simp add: Cons.IH [OF d] split: option.splits)
  next
    case False
    then show ?thesis
      by (cases grp) (simp add: Cons.IH [OF d] split: option.splits)
  qed
qed

lemma group_loop_names:
  "\<Union> (set ` ran (group_loop h items matched all_missing groups Map.empty)) \<subseteq>
     {s \<in> name ` set items. s \<notin> set matched \<and> (\<exists>grp\<in>set groups. s \<in> set (snd grp))}"
proof
  fix s
  assume "s \<in> \<Union> (set ` ran (group_loop h items matched all_missing groups Map.empty))"
  then obtain k l where "group_loop h items matched all_missing groups Map.empty k = Some l"
    and s: "s \<in> set l"
    by (auto simp: ran_def)
  from group_loop_Some [OF this(1)] obtain grp where grp: "grp \<in> set groups"
    and "group_entry h items matched all_missing (snd grp) = Some l"
    by auto
  from group_entry_Some(1) [OF this(2)] s grp
  show "s \<in> {s \<in> name ` set items. s \<notin> set matched \<and> (\<exists>grp\<in>set groups. s \<in> set (snd grp))}"
    by auto
qed

lemma group_loop_covers:
  assumes "distinct (map fst groups)" and "grp \<in> set groups" and "s \<in> set (snd grp)"
    and "s \<in> name ` set items" and "s \<notin> set matched" and "s \<in> fst ` set all_missing"
  shows "s \<in> \<Union> (set ` ran (group_loop h items matched all_missing groups Map.empty))"
proof -
  from assms(1,2) have "map_of groups (fst grp) = Some (snd grp)" by simp
  moreover from group_entry_covers [OF assms(4,3,5,6), of h]
  obtain l where "group_entry h items matched all_missing (snd grp) = Some l" and "s \<in> set l"
    by blast
  ultimately have "group_loop h items matched all_missing groups Map.empty (fst grp) = Some l"
    by (simp add: group_loop_lookup [OF assms(1)])
  with \<open>s \<in> set l\<close> show ?thesis by (auto simp: ran_def)
qed

lemma required_names:
  "set (goal_skill_names E goals_map g) = name ` set (dict_get goals_map g [])"
  by (simp add: goal_names_set goal_dict_keys)

subsection \<open>Matched and grouped skills\<close>

lemma example_group_entries:
  "group_entry (hash_order example_env) (dict_get example_goals ''G'' []) [''s'']
     [(''z'', ''core''), (''a'', ''nice_to_have'')] [''a''] = Some [''a'']"
  "group_entry (hash_order example_env) (dict_get example_goals ''G'' []) [''s'']
     [(''z'', ''core''), (''a'', ''nice_to_have'')] [''a'', ''z''] = Some [''a'', ''z'']"
  by (simp_all add: group_entry_def example_goals_dict set_iter_def example_env_def)

lemma example_grouped_call:
  assumes "cap = Some 1 \<or> cap = Some 5"
  shows "\<exists>r. score_resume example_env ''id'' ''G'' ''r'' (example_config\<lparr>max_missing_skills := cap\<rparr>)
          example_goals Map.empty [''G'' \<mapsto> [(''grp'', [''a'', ''z''])]] =
          ([Load_model ''G'', Load_vectorizer ''G'', Load_alternate_skills], Inr r) \<and>
        matched_skills r = [''s''] \<and>
        missing_skills r = (if cap = Some 1 then [''z''] else [''a'', ''z'']) \<and>
        missing_skills_grouped r = [''grp'' \<mapsto> [''a'', ''z'']]"
proof -
  have m: "minimum_score_to_pass (example_config\<lparr>max_missing_skills := cap\<rparr>) = Some (1 / 2)"
    by (simp add: example_config_def)
  note ok = score_resume_ok [OF example_text(2) example_loads(1,2) m,
      of "''id''" example_goals Map.empty "[''G'' \<mapsto> [(''grp'', [''a'', ''z''])]]"]
  have g: "dict_get [''G'' \<mapsto> [(''grp'', [''a'', ''z''])]] ''G'' [] = [(''grp'', [''a'', ''z''])]"
    by (simp add: dict_get_def)
  have c: "capped_missing_skills_names 1 [(''z'', ''core''), (''a'', ''nice_to_have'')] = [''z'']"
    "capped_missing_skills_names 5 [(''z'', ''core''), (''a'', ''nice_to_have'')] = [''z'', ''a'']"
    by (simp_all add: capped_missing_skills_names_def sorted_missing_skills_def slice_to_def
        dict_get_def importance_order_def)
  from assms show ?thesis
    by (auto simp: ok example_match_skills g example_group_entries c example_wide)
qed

text \<open>
  Claim C7 says that \<open>matched_skills\<close> and the names in \<open>missing_skills_grouped\<close> together
  cover every required skill of the goal. They do not: \<open>missing_skills_grouped\<close> holds
  skills of the goal's reporting groups only. With the one group \<open>grp\<close> listing \<open>a\<close>, the
  required skill \<open>z\<close>, which is not matched, is in neither.
\<close>

theorem required_skills_cover_counterexample:
  "map_sum id matched_skills
     (snd (score_resume example_env ''id'' ''G'' ''r'' example_config example_goals Map.empty
             [''G'' \<mapsto> [(''grp'', [''a''])]])) = Inr [''s''] \<and>
   map_sum id missing_skills_grouped
     (snd (score_resume example_env ''id'' ''G'' ''r'' example_config example_goals Map.empty
             [''G'' \<mapsto> [(''grp'', [''a''])]])) = Inr [''grp'' \<mapsto> [''a'']] \<and>
   ''z'' \<in> name ` set (dict_get example_goals ''G'' []) \<and>
   ''z'' \<notin> set [''s''] \<and> ''z'' \<notin> \<Union> (set ` ran [''grp'' \<mapsto> [''a'']])"
proof -
  have m: "minimum_score_to_pass example_config = Some (1 / 2)"
    by (simp add: example_config_def)
  note ok = score_resume_ok [OF example_text(2) example_loads(1,2) m,
      of "''id''" example_goals Map.empty "[''G'' \<mapsto> [(''grp'', [''a''])]]"]
  have g: "dict_get [''G'' \<mapsto> [(''grp'', [''a''])]] ''G'' [] = [(''grp'', [''a''])]"
    by (simp add: dict_get_def)
  show ?thesis
    by (simp add: ok example_match_skills g example_group_entries)
       (simp add: example_goals_dict)
qed

text \<open>
  Claim C7, amended. For every goal and every successful scoring call, \<open>matched_skills\<close>
  and the names in the lists of \<open>missing_skills_grouped\<close> are disjoint. Every required skill
  of the goal is in exactly one of two states: in \<open>matched_skills\<close>, or in the full list of
  missing skills. The names in \<open>missing_skills_grouped\<close> are required skills that are not
  matched and that some reporting group of the goal lists; and, the groups of a goal being
  the entries of a dictionary (one per group name), they are all of those. A required skill
  that is not matched and that no reporting group lists is in neither.
\<close>

theorem matched_and_grouped_skills:
  fixes E :: "'obj env"
  assumes "score_resume E sid g resume cfg goals_map suggestion_map skill_groups = (evs, Inr r)"
  defines "required \<equiv> name ` set (dict_get goals_map g [])"
  defines "groups \<equiv> dict_get skill_groups g []"
  defines "grouped \<equiv> \<Union> (set ` ran (missing_skills_grouped r))"
  defines "all_missing \<equiv> fst ` set (snd (match_skills E goals_map g resume))"
  shows "set (matched_skills r) \<inter> grouped = {} \<and>
     set (matched_skills r) \<union> all_missing = required \<and>
     set (matched_skills r) \<inter> all_missing = {} \<and>
     grouped \<subseteq> {s \<in> required. s \<notin> set (matched_skills r) \<and> (\<exists>grp\<in>set groups. s \<in> set (snd grp))} \<and>
     (distinct (map fst groups) \<longrightarrow>
        grouped = {s \<in> required. s \<notin> set (matched_skills r) \<and> (\<exists>grp\<in>set groups. s \<in> set (snd grp))})"
proof -
  let ?matched = "fst (match_skills E goals_map g resume)"
  let ?all = "snd (match_skills E goals_map g resume)"
  have ms: "set (matched_skills r) = set ?matched"
    using score_resume_fields(1) [OF assms(1)] by simp
  have gr: "grouped = \<Union> (set ` ran (group_loop (hash_order E) (dict_get goals_map g [])
      ?matched ?all groups Map.empty))"
    using score_resume_fields(4) [OF assms(1)] by (simp add: grouped_def groups_def)
  have un: "set ?matched \<union> all_missing = required"
    and dj: "set ?matched \<inter> all_missing = {}"
    using matched_missing_partition [of E goals_map g resume]
    by (simp_all add: all_missing_def required_def required_names)
  have sub: "grouped \<subseteq> {s \<in> required. s \<notin> set ?matched \<and> (\<exists>grp\<in>set groups. s \<in> set (snd grp))}"
    unfolding gr required_def by (rule group_loop_names)
  have eq: "grouped = {s \<in> required. s \<notin> set ?matched \<and> (\<exists>grp\<in>set groups. s \<in> set (snd grp))}"
    if d: "distinct (map fst groups)"
  proof
    show "grouped \<subseteq> {s \<in> required. s \<notin> set ?matched \<and> (\<exists>grp\<in>set groups. s \<in> set (snd grp))}"
      by (rule sub)
    show "{s \<in> required. s \<notin> set ?matched \<and> (\<exists>grp\<in>set groups. s \<in> set (snd grp))} \<subseteq> grouped"
    proof
      fix s
      assume "s \<in> {s \<in> required. s \<notin> set ?matched \<and> (\<exists>grp\<in>set groups. s \<in> set (snd grp))}"
      then obtain grp where s: "s \<in> required" "s \<notin> set ?matched"
        and grp: "grp \<in> set groups" "s \<in> set (snd grp)"
        by blast
      from s un have "s \<in> all_missing" by blast
      then have "s \<in> fst ` set ?all" by (simp add: all_missing_def)
      from group_loop_covers [OF d grp s(1) [unfolded required_def] s(2) this]
      show "s \<in> grouped" unfolding gr .
    qed
  qed
  from sub have "set ?matched \<inter> grouped = {}" by blast
  with un dj sub eq show ?thesis unfolding ms by blast
qed

theorem matched_and_grouped_skills_witness:
  "\<exists>r. score_resume example_env ''id'' ''G'' ''r'' (example_config\<lparr>max_missing_skills := Some 1\<rparr>)
          example_goals Map.empty [''G'' \<mapsto> [(''grp'', [''a'', ''z''])]] =
          ([Load_model ''G'', Load_vectorizer ''G'', Load_alternate_skills], Inr r) \<and>
        distinct (map fst (dict_get [''G'' \<mapsto> [(''grp'', [''a'', ''z''])]] ''G'' [])) \<and>
        matched_skills r = [''s''] \<and>
        \<Union> (set ` ran (missing_skills_grouped r)) = {''a'', ''z''} \<and>
        set (matched_skills r) \<inter> \<Union> (set ` ran (missing_skills_grouped r)) = {}"
proof -
  from example_grouped_call [of "Some 1"]
  obtain r where r: "score_resume example_env ''id'' ''G'' ''r''
      (example_config\<lparr>max_missing_skills := Some 1\<rparr>) example_goals Map.empty
      [''G'' \<mapsto> [(''grp'', [''a'', ''z''])]] =
      ([Load_model ''G'', Load_vectorizer ''G'', Load_alternate_skills], Inr r)"
    and m: "matched_skills r = [''s'']"
    by auto
  have g: "dict_get [''G'' \<mapsto> [(''grp'', [''a'', ''z''])]] ''G'' [] = [(''grp'', [''a'', ''z''])]"
    by (simp add: dict_get_def)
  have d: "distinct (map fst (dict_get [''G'' \<mapsto> [(''grp'', [''a'', ''z''])]] ''G'' []))"
    by (simp add: g)
  note t = matched_and_grouped_skills [OF r]
  have "set (matched_skills r) \<inter> \<Union> (set ` ran (missing_skills_grouped r)) = {}"
    by (rule t [THEN conjunct1])
  moreover have "\<Union> (set ` ran (missing_skills_grouped r)) =
      {s \<in> name ` set (dict_get example_goals ''G'' []). s \<notin> set [''s''] \<and>
         (\<exists>grp\<in>set [(''grp'', [''a'', ''z''])]. s \<in> set (snd grp))}"
    using t [THEN conjunct2, THEN conjunct2, THEN conjunct2, THEN conjunct2, THEN mp, OF d]
    by (simp only: g m)
  moreover have "{s \<in> name ` set (dict_get example_goals ''G'' []). s \<notin> set [''s''] \<and>
         (\<exists>grp\<in>set [(''grp'', [''a'', ''z''])]. s \<in> set (snd grp))} = {''a'', ''z''}"
    by (auto simp: example_goals_dict)
  ultimately show ?thesis using r m g by simp
qed

subsection \<open>Grouped skills and the cap\<close>



end
